theory Spec2Isabelle
  imports Complex_Main "HOL-Library.Sublist" "HOL-Library.AList"
begin

section \<open>Python values and exceptions\<close>

text \<open>
  The orchestration code handles three kinds of exception differently: the
  \<^verbatim>\<open>HTTPException\<close> it raises itself, \<^verbatim>\<open>httpx.RequestError\<close> (transport failure or
  timeout of a collaborator call), and every other \<^verbatim>\<open>Exception\<close> raised while a
  response is processed.  The last group is kept apart by class, as Python raises it.
\<close>

datatype py_exc =
    HTTPException int string
  | RequestError string
  | JSONDecodeError
  | KeyError string
  | IndexError
  | TypeError
  | ValueError
  | AttributeError
  | OverflowError
  | SyntaxError
  | ValidationError
  | OtherException string


section \<open>Pipeline builder: \<^verbatim>\<open>langgraph_agents.create_exception_workflow\<close>\<close>

text \<open>A Python \<^verbatim>\<open>Optional[str]\<close> argument is a \<open>string option\<close>; the process
  environment \<^verbatim>\<open>os.environ\<close> is a map from names to strings.\<close>

type_synonym environ = "string \<rightharpoonup> string"

definition truthy_str :: "string option \<Rightarrow> bool" where
  "truthy_str v = (case v of None \<Rightarrow> False | Some s \<Rightarrow> s \<noteq> [])"

text \<open>Python's \<^verbatim>\<open>x or y\<close> on optional strings: \<^verbatim>\<open>x\<close> when it is truthy, else \<^verbatim>\<open>y\<close>.\<close>

definition py_or :: "string option \<Rightarrow> string option \<Rightarrow> string option" where
  "py_or x y = (if truthy_str x then x else y)"

definition getenv :: "environ \<Rightarrow> string \<Rightarrow> string option" where
  "getenv env k = env k"

definition getenv_default :: "environ \<Rightarrow> string \<Rightarrow> string \<Rightarrow> string option" where
  "getenv_default env k d = (case env k of None \<Rightarrow> Some d | Some v \<Rightarrow> Some v)"

text \<open>The keyword arguments of \<^verbatim>\<open>create_exception_workflow\<close>.\<close>

record workflow_args =
  api_url :: "string option"
  project_id :: "string option"
  region :: "string option"
  index_id :: "string option"
  endpoint_id :: "string option"
  deployed_index_id :: "string option"
  llm_model_name :: "string option"
  customer_email :: "string option"
  dispatcher_email :: "string option"
  sheet_id :: "string option"
  sheet_credentials_path :: "string option"
  sheet_credentials_json :: "string option"

text \<open>The defaults of the signature, used for every argument the caller omits.\<close>

definition default_args :: workflow_args where
  "default_args =
     \<lparr> api_url = Some ''http://localhost:8000'', project_id = None,
       region = Some ''us-central1'', index_id = None, endpoint_id = None,
       deployed_index_id = None, llm_model_name = Some ''gemini-pro'',
       customer_email = None, dispatcher_email = None, sheet_id = None,
       sheet_credentials_path = None, sheet_credentials_json = None \<rparr>"

text \<open>
  The constructors of the Vertex AI clients are library code that can raise
  (\<^verbatim>\<open>SOPRetrievalAgent.__init__\<close> calls \<^verbatim>\<open>vertexai.init\<close>, \<^verbatim>\<open>ChatVertexAI(...)\<close> is
  built in \<^verbatim>\<open>DecisionAgent.__init__\<close>).  Whether they do is an input of the model.
\<close>

record cloud =
  vertex_search_init :: "py_exc option"
  chat_vertex_init :: "py_exc option"

datatype agent =
    ClassificationAgent "string option"
  | SOPRetrievalAgentWrapper string "string option" string string string
  | DecisionAgent string "string option" "string option"
  | ActionExecutorAgent "string option" "string option"

text \<open>\<^verbatim>\<open>sop_retrieval_agent.create_sop_retrieval_agent\<close>: \<^verbatim>\<open>None\<close> unless all of
  project, index, endpoint and deployed index are truthy.\<close>

definition create_sop_retrieval_agent ::
  "environ \<Rightarrow> cloud \<Rightarrow> string option \<Rightarrow> string option \<Rightarrow> string option \<Rightarrow>
   string option \<Rightarrow> string option \<Rightarrow> py_exc + agent option" where
  "create_sop_retrieval_agent env cl project_id0 region0 index_id0 endpoint_id0 deployed_index_id0 =
     (let project_id1 = py_or project_id0 (getenv env ''GCP_PROJECT_ID'');
          region1 = py_or region0 (getenv_default env ''GCP_REGION'' ''us-central1'');
          index_id1 = py_or index_id0 (getenv env ''VERTEX_AI_INDEX_ID'');
          endpoint_id1 = py_or endpoint_id0 (getenv env ''VERTEX_AI_ENDPOINT_ID'');
          deployed_index_id1 = py_or deployed_index_id0 (getenv env ''VERTEX_AI_DEPLOYED_INDEX_ID'')
      in if \<not> list_all truthy_str [project_id1, index_id1, endpoint_id1, deployed_index_id1]
         then Inr None
         else (case vertex_search_init cl of
                 Some e \<Rightarrow> Inl e
               | None \<Rightarrow> Inr (Some (SOPRetrievalAgentWrapper (the project_id1) region1
                                      (the index_id1) (the endpoint_id1) (the deployed_index_id1)))))"

text \<open>\<^verbatim>\<open>decision_agent.create_decision_agent\<close>, that is \<^verbatim>\<open>DecisionAgent.__init__\<close>.\<close>

definition create_decision_agent ::
  "environ \<Rightarrow> cloud \<Rightarrow> string option \<Rightarrow> string option \<Rightarrow> string option \<Rightarrow> py_exc + agent" where
  "create_decision_agent env cl project_id0 region0 model_name =
     (let project_id1 = py_or project_id0 (getenv env ''GCP_PROJECT_ID'');
          region1 = py_or region0 (getenv_default env ''GCP_REGION'' ''us-central1'')
      in if \<not> truthy_str project_id1 then Inl ValueError
         else (case chat_vertex_init cl of
                 Some e \<Rightarrow> Inl e
               | None \<Rightarrow> Inr (DecisionAgent (the project_id1) region1 model_name)))"

text \<open>\<^verbatim>\<open>action_executor_agent.create_action_executor_agent\<close>: the e-mail addresses
  fall back to the environment, then to fixed defaults.  The constructor of the
  sheets agent catches its own failures, so this never raises.\<close>

definition create_action_executor_agent ::
  "environ \<Rightarrow> string option \<Rightarrow> string option \<Rightarrow> agent" where
  "create_action_executor_agent env customer_email0 dispatcher_email0 =
     ActionExecutorAgent
       (py_or customer_email0 (getenv_default env ''CUSTOMER_EMAIL'' ''customer@example.com''))
       (py_or dispatcher_email0 (getenv_default env ''DISPATCHER_EMAIL'' ''dispatcher@example.com''))"

text \<open>The part of LangGraph's \<^verbatim>\<open>StateGraph\<close> the builder uses.\<close>

record state_graph =
  nodes :: "(string \<times> agent) list"
  edges :: "(string \<times> string) list"
  entry_point :: "string option"

definition END :: string where
  "END = ''__end__''"

definition StateGraph :: state_graph where
  "StateGraph = \<lparr> nodes = [], edges = [], entry_point = None \<rparr>"

definition add_node :: "string \<Rightarrow> agent \<Rightarrow> state_graph \<Rightarrow> state_graph" where
  "add_node name a g = g\<lparr> nodes := nodes g @ [(name, a)] \<rparr>"

definition add_edge :: "string \<Rightarrow> string \<Rightarrow> state_graph \<Rightarrow> state_graph" where
  "add_edge a b g = g\<lparr> edges := edges g @ [(a, b)] \<rparr>"

definition set_entry_point :: "string \<Rightarrow> state_graph \<Rightarrow> state_graph" where
  "set_entry_point a g = g\<lparr> entry_point := Some a \<rparr>"

text \<open>Lines 143 to 175 of \<^verbatim>\<open>create_exception_workflow\<close>: the graph is assembled from
  the agents that were initialised; \<^verbatim>\<open>current_node\<close> is threaded through the two
  optional stages.\<close>

definition assemble_graph ::
  "agent \<Rightarrow> agent option \<Rightarrow> agent option \<Rightarrow> agent \<Rightarrow> state_graph" where
  "assemble_graph classification_agent sop_agent decision_agent action_executor_agent =
     (let w0 = add_node ''classify'' classification_agent StateGraph;
          w1 = (case sop_agent of Some a \<Rightarrow> add_node ''retrieve_sop'' a w0 | None \<Rightarrow> w0);
          w2 = (case decision_agent of
                  Some a \<Rightarrow> add_node ''make_decision'' a w1 | None \<Rightarrow> w1);
          w3 = add_node ''execute_actions'' action_executor_agent w2;
          w4 = set_entry_point ''classify'' w3;
          current_node0 = ''classify'';
          (w5, current_node1) =
            (case sop_agent of
               Some a \<Rightarrow> (add_edge current_node0 ''retrieve_sop'' w4, ''retrieve_sop'')
             | None \<Rightarrow> (w4, current_node0));
          (w6, current_node2) =
            (case decision_agent of
               Some a \<Rightarrow> (add_edge current_node1 ''make_decision'' w5, ''make_decision'')
             | None \<Rightarrow> (w5, current_node1));
          w7 = add_edge current_node2 ''execute_actions'' w6;
          w8 = add_edge ''execute_actions'' END w7
      in w8)"

text \<open>Lines 118 to 132: the Decision agent is built only when a project is known, and
  a constructor that raises disables the stage instead of failing the build.\<close>

definition init_decision_agent ::
  "environ \<Rightarrow> cloud \<Rightarrow> string option \<Rightarrow> string option \<Rightarrow> string option \<Rightarrow> agent option" where
  "init_decision_agent env cl project_id1 region1 model_name =
     (if truthy_str (py_or project_id1 (getenv env ''GCP_PROJECT_ID''))
      then (case create_decision_agent env cl project_id1 region1 model_name of
              Inl e \<Rightarrow> None
            | Inr a \<Rightarrow> Some a)
      else None)"

text \<open>
  \<^verbatim>\<open>create_exception_workflow\<close> exists once its module \<^verbatim>\<open>langgraph_agents\<close> has been
  imported.  The file as shipped does not compile: in the body of \<^verbatim>\<open>class AgentState\<close>
  line 50 reads \<^verbatim>\<open>api_url: str,\<close> and line 51 annotates a quoted key, so the import
  raises \<^verbatim>\<open>SyntaxError\<close> and the function is never defined.  The outcome of the import
  is an input of the model (\<open>None\<close>: the module was imported); \<open>shipped_import\<close> is
  the outcome for the file as it is.
\<close>

definition shipped_import :: "py_exc option" where
  "shipped_import = Some SyntaxError"

text \<open>Lines 91 to 141 and 175 of the file: the agents are initialised and handed
  to the assembly of the graph.\<close>

definition create_exception_workflow_body ::
  "environ \<Rightarrow> cloud \<Rightarrow> workflow_args \<Rightarrow> py_exc + state_graph" where
  "create_exception_workflow_body env cl args =
     (let project_id1 = py_or (project_id args) (getenv env ''GCP_PROJECT_ID'');
          region1 = py_or (region args) (getenv_default env ''GCP_REGION'' ''us-central1'');
          index_id1 = py_or (index_id args) (getenv env ''VERTEX_AI_INDEX_ID'');
          endpoint_id1 = py_or (endpoint_id args) (getenv env ''VERTEX_AI_ENDPOINT_ID'');
          deployed_index_id1 =
            py_or (deployed_index_id args) (getenv env ''VERTEX_AI_DEPLOYED_INDEX_ID'');
          classification_agent = ClassificationAgent (api_url args)
      in case create_sop_retrieval_agent env cl project_id1 region1 index_id1 endpoint_id1
                deployed_index_id1 of
           Inl e \<Rightarrow> Inl e
         | Inr sop_agent \<Rightarrow>
             Inr (assemble_graph classification_agent sop_agent
                    (init_decision_agent env cl project_id1 region1 (llm_model_name args))
                    (create_action_executor_agent env (customer_email args)
                       (dispatcher_email args))))"

text \<open>A call of \<^verbatim>\<open>create_exception_workflow\<close>: it fails with the exception of the import
  when the module could not be imported, and runs the body otherwise.\<close>

definition create_exception_workflow ::
  "py_exc option \<Rightarrow> environ \<Rightarrow> cloud \<Rightarrow> workflow_args \<Rightarrow> py_exc + state_graph" where
  "create_exception_workflow imported env cl args =
     (case imported of
        Some e \<Rightarrow> Inl e
      | None \<Rightarrow> create_exception_workflow_body env cl args)"

text \<open>
  The order in which the compiled graph runs its nodes: from the entry point along the
  edges until \<^verbatim>\<open>END\<close>.  The graph is a chain, so each node has one successor; the
  fuel is one more than the number of edges, enough for any path without a repeated edge.
\<close>

fun follow :: "nat \<Rightarrow> (string \<times> string) list \<Rightarrow> string \<Rightarrow> string list" where
  "follow 0 es n = []"
| "follow (Suc k) es n =
     (if n = END then []
      else n # (case map_of es n of None \<Rightarrow> [] | Some m \<Rightarrow> follow k es m))"

definition stage_sequence :: "state_graph \<Rightarrow> string list" where
  "stage_sequence g =
     (case entry_point g of
        None \<Rightarrow> []
      | Some e \<Rightarrow> follow (Suc (length (edges g))) (edges g) e)"

text \<open>What the builder decided about the two optional stages.\<close>

definition retrieval_configured :: "environ \<Rightarrow> workflow_args \<Rightarrow> bool" where
  "retrieval_configured env args =
     (truthy_str (py_or (project_id args) (getenv env ''GCP_PROJECT_ID'')) \<and>
      truthy_str (py_or (index_id args) (getenv env ''VERTEX_AI_INDEX_ID'')) \<and>
      truthy_str (py_or (endpoint_id args) (getenv env ''VERTEX_AI_ENDPOINT_ID'')) \<and>
      truthy_str (py_or (deployed_index_id args) (getenv env ''VERTEX_AI_DEPLOYED_INDEX_ID'')))"

text \<open>The three identities the specification lists for the Retrieval stage.\<close>

definition retrieval_ids_present :: "environ \<Rightarrow> workflow_args \<Rightarrow> bool" where
  "retrieval_ids_present env args =
     (truthy_str (py_or (index_id args) (getenv env ''VERTEX_AI_INDEX_ID'')) \<and>
      truthy_str (py_or (endpoint_id args) (getenv env ''VERTEX_AI_ENDPOINT_ID'')) \<and>
      truthy_str (py_or (deployed_index_id args) (getenv env ''VERTEX_AI_DEPLOYED_INDEX_ID'')))"

definition llm_project_present :: "environ \<Rightarrow> workflow_args \<Rightarrow> bool" where
  "llm_project_present env args =
     truthy_str (py_or (project_id args) (getenv env ''GCP_PROJECT_ID''))"

definition all_stages :: "string list" where
  "all_stages = [''classify'', ''retrieve_sop'', ''make_decision'', ''execute_actions'']"

text \<open>The node that runs directly before \<open>n\<close> in a sequence, if any.\<close>

fun predecessor :: "string list \<Rightarrow> string \<Rightarrow> string option" where
  "predecessor (a # b # xs) n = (if b = n then Some a else predecessor (b # xs) n)"
| "predecessor xs n = None"


text \<open>Concrete configurations used to exercise the builder.\<close>

definition cloud_ok :: cloud where
  "cloud_ok = \<lparr> vertex_search_init = None, chat_vertex_init = None \<rparr>"

definition no_classifier_args :: workflow_args where
  "no_classifier_args = default_args\<lparr> api_url := None \<rparr>"

definition ids_only_args :: workflow_args where
  "ids_only_args = default_args\<lparr> index_id := Some ''idx-1'', endpoint_id := Some ''ep-1'',
      deployed_index_id := Some ''dep-1'' \<rparr>"

definition full_args :: workflow_args where
  "full_args = default_args\<lparr> project_id := Some ''proj'', index_id := Some ''idx-1'',
      endpoint_id := Some ''ep-1'', deployed_index_id := Some ''dep-1'' \<rparr>"


section \<open>JSON values as Python sees them\<close>

text \<open>
  The value \<^verbatim>\<open>response.json()\<close> returns.  A JSON object is an association list whose
  keys are looked up with \<open>map_of\<close>; \<^verbatim>\<open>None\<close> is \<open>JNull\<close>.  Floats are modelled by
  reals: the code only passes them on, compares and formats them.
\<close>

datatype json =
    JNull
  | JBool bool
  | JInt int
  | JFloat real
  | JStr string
  | JList "json list"
  | JDict "(string \<times> json) list"

type_synonym pydict = "(string \<times> json) list"

text \<open>Sequencing of a computation that can raise.\<close>

definition and_then :: "py_exc + 'a \<Rightarrow> ('a \<Rightarrow> py_exc + 'b) \<Rightarrow> py_exc + 'b" where
  "and_then m f = (case m of Inl e \<Rightarrow> Inl e | Inr x \<Rightarrow> f x)"

text \<open>Truth value of an object in a condition.\<close>

fun truthy :: "json \<Rightarrow> bool" where
  "truthy JNull = False"
| "truthy (JBool b) = b"
| "truthy (JInt i) = (i \<noteq> 0)"
| "truthy (JFloat r) = (r \<noteq> 0)"
| "truthy (JStr s) = (s \<noteq> [])"
| "truthy (JList xs) = (xs \<noteq> [])"
| "truthy (JDict d) = (d \<noteq> [])"

text \<open>\<^verbatim>\<open>obj.get(key, default)\<close>: only a dict has the method.\<close>

fun py_get :: "json \<Rightarrow> string \<Rightarrow> json \<Rightarrow> py_exc + json" where
  "py_get (JDict d) k dflt = Inr (case map_of d k of None \<Rightarrow> dflt | Some v \<Rightarrow> v)"
| "py_get v k dflt = Inl AttributeError"

text \<open>\<^verbatim>\<open>obj[key]\<close> with a string key.\<close>

fun py_item :: "json \<Rightarrow> string \<Rightarrow> py_exc + json" where
  "py_item (JDict d) k = (case map_of d k of None \<Rightarrow> Inl (KeyError k) | Some v \<Rightarrow> Inr v)"
| "py_item v k = Inl TypeError"

text \<open>\<^verbatim>\<open>obj[0]\<close>.  The keys of a parsed JSON object are strings, so a dict has no key 0.\<close>

fun py_first :: "json \<Rightarrow> py_exc + json" where
  "py_first (JList []) = Inl IndexError"
| "py_first (JList (x # xs)) = Inr x"
| "py_first (JStr []) = Inl IndexError"
| "py_first (JStr (c # cs)) = Inr (JStr [c])"
| "py_first (JDict d) = Inl (KeyError ''0'')"
| "py_first v = Inl TypeError"

fun py_len :: "json \<Rightarrow> py_exc + nat" where
  "py_len (JList xs) = Inr (length xs)"
| "py_len (JStr s) = Inr (length s)"
| "py_len (JDict d) = Inr (length d)"
| "py_len v = Inl TypeError"

text \<open>
  An integer of Python is unbounded, a float is a double: converting an integer to a
  float (\<^verbatim>\<open>float(i)\<close>, a float format specification, pydantic's validation of a
  \<^verbatim>\<open>float\<close> field) raises \<^verbatim>\<open>OverflowError\<close> unless the integer rounds to a finite
  double, that is, unless its magnitude is below \<open>2 ^ 1024 - 2 ^ 970\<close>.  \<open>JFloat\<close> stands
  for a finite double.
\<close>

definition fits_float :: "int \<Rightarrow> bool" where
  "fits_float i = (\<bar>i\<bar> < 2 ^ 1024 - 2 ^ 970)"

text \<open>Whether a value can be formatted with a float format specification such as
  \<^verbatim>\<open>:.4f\<close>: floats, integers that fit a double and booleans (which are integers) can,
  a larger integer raises \<^verbatim>\<open>OverflowError\<close>, a string \<^verbatim>\<open>ValueError\<close>, anything else
  \<^verbatim>\<open>TypeError\<close>.  The text produced is only printed.\<close>

fun format_float :: "json \<Rightarrow> py_exc + unit" where
  "format_float (JInt i) = (if fits_float i then Inr () else Inl OverflowError)"
| "format_float (JFloat r) = Inr ()"
| "format_float (JBool b) = Inr ()"
| "format_float (JStr s) = Inl ValueError"
| "format_float v = Inl TypeError"

text \<open>The elements a \<^verbatim>\<open>for\<close> loop over \<^verbatim>\<open>obj[:n]\<close> visits: a list or a string can be sliced,
  a dict or a scalar cannot (for a dict the exception is \<^verbatim>\<open>TypeError\<close> up to Python
  3.11 and \<^verbatim>\<open>KeyError\<close> from 3.12 on; no property below depends on which).\<close>

fun py_slice_to :: "nat \<Rightarrow> json \<Rightarrow> py_exc + json list" where
  "py_slice_to n (JList xs) = Inr (take n xs)"
| "py_slice_to n (JStr s) = Inr (map (\<lambda>c. JStr [c]) (take n s))"
| "py_slice_to n v = Inl TypeError"

text \<open>
  Validation of a field by a pydantic model.  Which ill-typed values pydantic coerces
  depends on its version and mode, so the validators are parameters; \<open>None\<close> means
  that validation fails.  A lawful validator accepts every value that already has the
  declared type and returns it unchanged (an integer that fits a double is accepted
  for a float).
\<close>

record pydantic =
  v_str :: "json \<Rightarrow> string option"
  v_float :: "json \<Rightarrow> real option"
  v_bool :: "json \<Rightarrow> bool option"
  v_dict_list :: "json \<Rightarrow> pydict list option"

definition lawful :: "pydantic \<Rightarrow> bool" where
  "lawful V =
     ((\<forall>s. v_str V (JStr s) = Some s) \<and>
      (\<forall>r. v_float V (JFloat r) = Some r) \<and>
      (\<forall>i. fits_float i \<longrightarrow> v_float V (JInt i) = Some (of_int i)) \<and>
      (\<forall>b. v_bool V (JBool b) = Some b) \<and>
      (\<forall>ds. v_dict_list V (JList (map JDict ds)) = Some ds))"

text \<open>A field declared \<^verbatim>\<open>Optional[T] = None\<close>.\<close>

definition v_optional :: "(json \<Rightarrow> 'a option) \<Rightarrow> json \<Rightarrow> 'a option option" where
  "v_optional v x = (if x = JNull then Some None else map_option Some (v x))"

text \<open>The strictest lawful validators: nothing is coerced.\<close>

fun strict_str :: "json \<Rightarrow> string option" where
  "strict_str (JStr s) = Some s"
| "strict_str v = None"

fun strict_float :: "json \<Rightarrow> real option" where
  "strict_float (JFloat r) = Some r"
| "strict_float (JInt i) = (if fits_float i then Some (of_int i) else None)"
| "strict_float v = None"

fun strict_bool :: "json \<Rightarrow> bool option" where
  "strict_bool (JBool b) = Some b"
| "strict_bool v = None"

fun strict_dict :: "json \<Rightarrow> pydict option" where
  "strict_dict (JDict d) = Some d"
| "strict_dict v = None"

fun all_some :: "'a option list \<Rightarrow> 'a list option" where
  "all_some [] = Some []"
| "all_some (None # xs) = None"
| "all_some (Some x # xs) = map_option ((#) x) (all_some xs)"

fun strict_dict_list :: "json \<Rightarrow> pydict list option" where
  "strict_dict_list (JList xs) = all_some (map strict_dict xs)"
| "strict_dict_list v = None"

definition strict :: pydantic where
  "strict = \<lparr> v_str = strict_str, v_float = strict_float, v_bool = strict_bool,
              v_dict_list = strict_dict_list \<rparr>"


section \<open>Orchestrator: \<^verbatim>\<open>workflow_api.run_workflow\<close>\<close>

text \<open>\<^verbatim>\<open>WorkflowRequest\<close>, already validated by the web framework.\<close>

record workflow_request =
  driver_note :: string
  gps_deviation_km :: real
  weather_condition :: string
  attempts :: int
  hub_delay_minutes :: int
  package_scan_result :: string
  time_of_day :: string

text \<open>
  What \<^verbatim>\<open>await client.post(...)\<close> does: it raises, or it returns a response with a
  status code, a text and a body.  \<open>json_body = None\<close> means that \<^verbatim>\<open>resp.json()\<close>
  raises because the body is not JSON.
\<close>

record http_response =
  status_code :: int
  text_of :: string
  json_body :: "json option"

datatype http_outcome = Raises py_exc | Responds http_response

text \<open>The four collaborators, each answering a request payload.\<close>

record collaborators =
  predict :: "json \<Rightarrow> http_outcome"
  retrieve :: "json \<Rightarrow> http_outcome"
  decide :: "json \<Rightarrow> http_outcome"
  execute :: "json \<Rightarrow> http_outcome"

text \<open>The observable course of a run: the requests posted so far, in order, and the
  local list \<^verbatim>\<open>agents_executed\<close>.\<close>

record run_state =
  requests :: "(string \<times> json) list"
  agents_executed :: "string list"

definition post :: "string \<Rightarrow> json \<Rightarrow> run_state \<Rightarrow> run_state" where
  "post path payload st = st\<lparr> requests := requests st @ [(path, payload)] \<rparr>"

definition executed :: "string \<Rightarrow> run_state \<Rightarrow> run_state" where
  "executed name st = st\<lparr> agents_executed := agents_executed st @ [name] \<rparr>"

text \<open>\<^verbatim>\<open>DecisionOutput\<close> and \<^verbatim>\<open>ActionOutput\<close>.\<close>

record decision_output =
  recommended_action :: string
  driver_instruction :: string
  customer_message :: string
  requires_escalation :: bool
  confidence :: real
  reasoning_summary :: string

record action_output =
  sheet_updated :: bool
  email_simulated :: bool
  escalated :: bool
  timestamp :: string

text \<open>\<^verbatim>\<open>WorkflowResponse\<close>; the fields carry the prefix \<open>wr_\<close>.\<close>

record workflow_response =
  wr_predicted_label :: string
  wr_confidence :: real
  wr_top_predictions :: "pydict list"
  wr_sop_retrieved :: bool
  wr_sop_content :: "string option"
  wr_sop_score :: "real option"
  wr_sop_id :: "string option"
  wr_decision :: "decision_output option"
  wr_action :: "action_output option"
  wr_agents_executed :: "string list"
  wr_status :: string

text \<open>After Agent 1: \<^verbatim>\<open>agent1_result\<close>, a dict, with the two entries every later use
  reads again.\<close>

record classified =
  agent1_result :: pydict
  predicted_label :: json
  confidence1 :: json

text \<open>The four local variables Agent 2 sets.\<close>

record sop_slots =
  sop_retrieved :: bool
  sop_content :: json
  sop_score :: json
  sop_id :: json

definition no_sop :: sop_slots where
  "no_sop = \<lparr> sop_retrieved = False, sop_content = JNull, sop_score = JNull, sop_id = JNull \<rparr>"

text \<open>The local variables Agent 3 sets: \<^verbatim>\<open>decision\<close> and \<^verbatim>\<open>decision_dict\<close>.\<close>

record decision_slots =
  decision :: "decision_output option"
  decision_dict :: json

definition no_decision :: decision_slots where
  "no_decision = \<lparr> decision = None, decision_dict = JNull \<rparr>"

definition agent1_payload :: "workflow_request \<Rightarrow> json" where
  "agent1_payload data =
     JDict [(''driver_note'', JStr (driver_note data)),
            (''gps_deviation_km'', JFloat (gps_deviation_km data)),
            (''weather_condition'', JStr (weather_condition data)),
            (''attempts'', JInt (attempts data)),
            (''hub_delay_minutes'', JInt (hub_delay_minutes data)),
            (''package_scan_result'', JStr (package_scan_result data)),
            (''time_of_day'', JStr (time_of_day data)),
            (''top_k'', JInt 3)]"

text \<open>\<^verbatim>\<open>agent1_result.get("top_predictions", [])\<close>.\<close>

definition top_predictions_of :: "classified \<Rightarrow> json" where
  "top_predictions_of c =
     (case map_of (agent1_result c) ''top_predictions'' of None \<Rightarrow> JList [] | Some v \<Rightarrow> v)"

text \<open>The payloads sent to Agents 2, 3 and 4.\<close>

definition agent2_payload :: "workflow_request \<Rightarrow> classified \<Rightarrow> json" where
  "agent2_payload data c =
     JDict [(''exception_type'', predicted_label c),
            (''driver_note'', JStr (driver_note data)),
            (''num_results'', JInt 1)]"

definition agent3_payload :: "workflow_request \<Rightarrow> classified \<Rightarrow> sop_slots \<Rightarrow> json" where
  "agent3_payload data c sop =
     JDict [(''predicted_label'', predicted_label c),
            (''confidence'', confidence1 c),
            (''top_predictions'', top_predictions_of c),
            (''driver_note'', JStr (driver_note data)),
            (''gps_deviation_km'', JFloat (gps_deviation_km data)),
            (''weather_condition'', JStr (weather_condition data)),
            (''attempts'', JInt (attempts data)),
            (''hub_delay_minutes'', JInt (hub_delay_minutes data)),
            (''package_scan_result'', JStr (package_scan_result data)),
            (''time_of_day'', JStr (time_of_day data)),
            (''sop_content'', sop_content sop)]"

definition agent4_payload ::
  "workflow_request \<Rightarrow> classified \<Rightarrow> sop_slots \<Rightarrow> decision_slots \<Rightarrow> json" where
  "agent4_payload data c sop dec =
     JDict [(''driver_note'', JStr (driver_note data)),
            (''gps_deviation_km'', JFloat (gps_deviation_km data)),
            (''weather_condition'', JStr (weather_condition data)),
            (''attempts'', JInt (attempts data)),
            (''hub_delay_minutes'', JInt (hub_delay_minutes data)),
            (''package_scan_result'', JStr (package_scan_result data)),
            (''time_of_day'', JStr (time_of_day data)),
            (''predicted_label'', predicted_label c),
            (''confidence'', confidence1 c),
            (''top_predictions'', top_predictions_of c),
            (''sop_retrieved'', JBool (sop_retrieved sop)),
            (''sop_id'', sop_id sop),
            (''decision'', decision_dict dec)]"

text \<open>
  Agent 1 (lines 203 to 236).  A status other than 200 raises \<^verbatim>\<open>HTTPException(502)\<close>; a
  \<^verbatim>\<open>RequestError\<close> is turned into \<^verbatim>\<open>HTTPException(503)\<close>; any other exception of the
  block (a body that is not JSON, a missing key in the \<^verbatim>\<open>print\<close>) is not caught.
\<close>

definition classification_stage ::
  "collaborators \<Rightarrow> workflow_request \<Rightarrow> run_state \<Rightarrow> (py_exc + classified) \<times> run_state" where
  "classification_stage co data st0 =
     (let payload = agent1_payload data;
          st1 = post ''/predict'' payload st0
      in case predict co payload of
           Raises e \<Rightarrow>
             (case e of
                RequestError m \<Rightarrow>
                  (Inl (HTTPException 503 (''Agent 1 (Classification) unavailable: '' @ m)), st1)
              | _ \<Rightarrow> (Inl e, st1))
         | Responds resp1 \<Rightarrow>
             if status_code resp1 \<noteq> 200
             then (Inl (HTTPException 502
                          (''Agent 1 (Classification) failed: '' @ text_of resp1)), st1)
             else (case json_body resp1 of
                     None \<Rightarrow> (Inl JSONDecodeError, st1)
                   | Some a1 \<Rightarrow>
                       (let st2 = executed ''agent1_classification'' st1
                        in (and_then (py_item a1 ''predicted_label'') (\<lambda>pl.
                            and_then (py_item a1 ''confidence'') (\<lambda>cf.
                            and_then (format_float cf) (\<lambda>u.
                              case a1 of
                                JDict d \<Rightarrow>
                                  Inr \<lparr> agent1_result = d, predicted_label = pl,
                                        confidence1 = cf \<rparr>
                              | _ \<Rightarrow> Inl TypeError))), st2))))"

text \<open>The processing of Agent 2's body (lines 264 to 272).\<close>

definition read_sops :: "json \<Rightarrow> py_exc + sop_slots" where
  "read_sops agent2_result =
     and_then (py_get agent2_result ''sops'' JNull) (\<lambda>sops.
       if \<not> truthy sops then Inr no_sop
       else and_then (py_len sops) (\<lambda>n.
         if \<not> n > 0 then Inr no_sop
         else and_then (py_first sops) (\<lambda>sop.
              and_then (py_get sop ''content'' JNull) (\<lambda>c.
              and_then (py_get sop ''score'' JNull) (\<lambda>s.
              and_then (py_get sop ''datapoint_id'' JNull) (\<lambda>i.
              and_then (format_float s) (\<lambda>u.
                Inr \<lparr> sop_retrieved = True, sop_content = c, sop_score = s,
                      sop_id = i \<rparr>)))))))"

text \<open>
  Agent 2 (lines 241 to 278).  The only except clause is for \<^verbatim>\<open>httpx.RequestError\<close>:
  any other exception raised in the block leaves \<^verbatim>\<open>run_workflow\<close>.
\<close>

definition retrieval_stage ::
  "collaborators \<Rightarrow> workflow_request \<Rightarrow> classified \<Rightarrow> run_state \<Rightarrow>
   (py_exc + sop_slots) \<times> run_state" where
  "retrieval_stage co data c st0 =
     (let payload = agent2_payload data c;
          st1 = post ''/retrieve'' payload st0
      in case retrieve co payload of
           Raises e \<Rightarrow>
             (case e of RequestError m \<Rightarrow> (Inr no_sop, st1) | _ \<Rightarrow> (Inl e, st1))
         | Responds resp2 \<Rightarrow>
             if status_code resp2 = 200
             then (case json_body resp2 of
                     None \<Rightarrow> (Inl JSONDecodeError, st1)
                   | Some agent2_result \<Rightarrow>
                       (read_sops agent2_result, executed ''agent2_sop_retrieval'' st1))
             else (Inr no_sop, st1))"

text \<open>The construction of \<^verbatim>\<open>DecisionOutput\<close> from \<^verbatim>\<open>decision_dict\<close> (lines 314 to 321):
  six \<^verbatim>\<open>.get\<close> calls with defaults, then validation.\<close>

definition make_decision_output :: "pydantic \<Rightarrow> json \<Rightarrow> py_exc + decision_output" where
  "make_decision_output V dd =
     and_then (py_get dd ''recommended_action'' (JStr [])) (\<lambda>ra.
     and_then (py_get dd ''driver_instruction'' (JStr [])) (\<lambda>di.
     and_then (py_get dd ''customer_message'' (JStr [])) (\<lambda>cm.
     and_then (py_get dd ''requires_escalation'' (JBool False)) (\<lambda>re.
     and_then (py_get dd ''confidence'' (JFloat 0)) (\<lambda>cf.
     and_then (py_get dd ''reasoning_summary'' (JStr [])) (\<lambda>rs.
       case (v_str V ra, v_str V di, v_str V cm, v_bool V re, v_float V cf, v_str V rs) of
         (Some ra', Some di', Some cm', Some re', Some cf', Some rs') \<Rightarrow>
           Inr \<lparr> recommended_action = ra', driver_instruction = di', customer_message = cm',
                 requires_escalation = re', confidence = cf', reasoning_summary = rs' \<rparr>
       | _ \<Rightarrow> Inl ValidationError))))))"

text \<open>
  Agent 3 (lines 283 to 330).  Both \<^verbatim>\<open>httpx.RequestError\<close> and \<^verbatim>\<open>Exception\<close> are caught,
  so the block never raises; what it had assigned before an exception stays assigned.
\<close>

definition decision_stage ::
  "pydantic \<Rightarrow> collaborators \<Rightarrow> workflow_request \<Rightarrow> classified \<Rightarrow> sop_slots \<Rightarrow> run_state \<Rightarrow>
   decision_slots \<times> run_state" where
  "decision_stage V co data c sop st0 =
     (let payload = agent3_payload data c sop;
          st1 = post ''/decide'' payload st0
      in case decide co payload of
           Raises e \<Rightarrow> (no_decision, st1)
         | Responds resp3 \<Rightarrow>
             if status_code resp3 = 200
             then (case json_body resp3 of
                     None \<Rightarrow> (no_decision, st1)
                   | Some agent3_result \<Rightarrow>
                       (let st2 = executed ''agent3_decision'' st1
                        in case py_get agent3_result ''decision'' (JDict []) of
                             Inl e \<Rightarrow> (no_decision, st2)
                           | Inr dd \<Rightarrow>
                               (case make_decision_output V dd of
                                  Inl e \<Rightarrow> (\<lparr> decision = None, decision_dict = dd \<rparr>, st2)
                                | Inr d \<Rightarrow> (\<lparr> decision = Some d, decision_dict = dd \<rparr>, st2))))
             else (no_decision, st1))"

text \<open>The construction of \<^verbatim>\<open>ActionOutput\<close> (lines 370 to 375).\<close>

definition make_action_output :: "pydantic \<Rightarrow> json \<Rightarrow> py_exc + action_output" where
  "make_action_output V agent4_result =
     and_then (py_get agent4_result ''sheet_updated'' (JBool False)) (\<lambda>su.
     and_then (py_get agent4_result ''email_simulated'' (JBool False)) (\<lambda>es.
     and_then (py_get agent4_result ''escalated'' (JBool False)) (\<lambda>esc.
     and_then (py_get agent4_result ''timestamp'' (JStr [])) (\<lambda>ts.
       case (v_bool V su, v_bool V es, v_bool V esc, v_str V ts) of
         (Some su', Some es', Some esc', Some ts') \<Rightarrow>
           Inr \<lparr> sheet_updated = su', email_simulated = es', escalated = esc',
                 timestamp = ts' \<rparr>
       | _ \<Rightarrow> Inl ValidationError))))"

text \<open>Agent 4 (lines 335 to 386), with the same two except clauses as Agent 3.\<close>

definition execution_stage ::
  "pydantic \<Rightarrow> collaborators \<Rightarrow> workflow_request \<Rightarrow> classified \<Rightarrow> sop_slots \<Rightarrow>
   decision_slots \<Rightarrow> run_state \<Rightarrow> action_output option \<times> run_state" where
  "execution_stage V co data c sop dec st0 =
     (let payload = agent4_payload data c sop dec;
          st1 = post ''/execute'' payload st0
      in case execute co payload of
           Raises e \<Rightarrow> (None, st1)
         | Responds resp4 \<Rightarrow>
             if status_code resp4 = 200
             then (case json_body resp4 of
                     None \<Rightarrow> (None, st1)
                   | Some agent4_result \<Rightarrow>
                       (case make_action_output V agent4_result of
                          Inl e \<Rightarrow> (None, executed ''agent4_action'' st1)
                        | Inr a \<Rightarrow> (Some a, executed ''agent4_action'' st1)))
             else (None, st1))"

text \<open>The final \<^verbatim>\<open>WorkflowResponse(...)\<close> (lines 391 to 412); its validation can raise.\<close>

definition build_response ::
  "pydantic \<Rightarrow> classified \<Rightarrow> sop_slots \<Rightarrow> decision_slots \<Rightarrow> action_output option \<Rightarrow>
   run_state \<Rightarrow> py_exc + workflow_response" where
  "build_response V c sop dec act st =
     (case (v_str V (predicted_label c), v_float V (confidence1 c),
            v_dict_list V (top_predictions_of c), v_optional (v_str V) (sop_content sop),
            v_optional (v_float V) (sop_score sop), v_optional (v_str V) (sop_id sop)) of
        (Some pl, Some cf, Some tp, Some sc, Some ss, Some si) \<Rightarrow>
          Inr \<lparr> wr_predicted_label = pl, wr_confidence = cf, wr_top_predictions = tp,
                wr_sop_retrieved = sop_retrieved sop, wr_sop_content = sc, wr_sop_score = ss,
                wr_sop_id = si, wr_decision = decision dec, wr_action = act,
                wr_agents_executed = agents_executed st, wr_status = ''success'' \<rparr>
      | _ \<Rightarrow> Inl ValidationError)"

text \<open>\<^verbatim>\<open>run_workflow\<close>: the result, or the exception that leaves the function, together
  with the course of the run.\<close>

definition run_workflow ::
  "pydantic \<Rightarrow> collaborators \<Rightarrow> workflow_request \<Rightarrow> (py_exc + workflow_response) \<times> run_state" where
  "run_workflow V co data =
     (case classification_stage co data \<lparr> requests = [], agents_executed = [] \<rparr> of
        (Inl e, st1) \<Rightarrow> (Inl e, st1)
      | (Inr c, st1) \<Rightarrow>
          (case retrieval_stage co data c st1 of
             (Inl e, st2) \<Rightarrow> (Inl e, st2)
           | (Inr sop, st2) \<Rightarrow>
               (case decision_stage V co data c sop st2 of
                  (dec, st3) \<Rightarrow>
                    (case execution_stage V co data c sop dec st3 of
                       (act, st4) \<Rightarrow> (build_response V c sop dec act st4, st4)))))"


text \<open>
  An Agent 1 answer whose entries have the types \<^verbatim>\<open>Agent1Response\<close> declares: a string
  label, a numeric confidence (a float, or an integer that fits one) and, when present,
  a list of dicts as top predictions.
\<close>

definition agent1_well_typed :: "pydict \<Rightarrow> bool" where
  "agent1_well_typed d =
     ((case map_of d ''predicted_label'' of Some (JStr s) \<Rightarrow> True | _ \<Rightarrow> False) \<and>
      (case map_of d ''confidence'' of
         Some (JFloat r) \<Rightarrow> True | Some (JInt i) \<Rightarrow> fits_float i | _ \<Rightarrow> False) \<and>
      (case map_of d ''top_predictions'' of
         None \<Rightarrow> True | Some v \<Rightarrow> strict_dict_list v \<noteq> None))"

text \<open>The scenario of the specification and collaborators for it.\<close>

definition gate_locked :: workflow_request where
  "gate_locked =
     \<lparr> driver_note = ''gate locked'', gps_deviation_km = 2 / 10,
       weather_condition = ''Clear'', attempts = 2, hub_delay_minutes = 10,
       package_scan_result = ''OK'', time_of_day = ''Afternoon'' \<rparr>"

definition ok_response :: "json \<Rightarrow> http_outcome" where
  "ok_response body = Responds \<lparr> status_code = 200, text_of = [], json_body = Some body \<rparr>"

definition unparsable_response :: http_outcome where
  "unparsable_response =
     Responds \<lparr> status_code = 200, text_of = ''<html>Service starting</html>'',
                json_body = None \<rparr>"

definition error_response :: "int \<Rightarrow> http_outcome" where
  "error_response code =
     Responds \<lparr> status_code = code, text_of = ''Internal Server Error'', json_body = None \<rparr>"

definition access_issue :: json where
  "access_issue =
     JDict [(''predicted_label'', JStr ''ACCESS_ISSUE''), (''confidence'', JFloat (9 / 10)),
            (''top_predictions'',
               JList [JDict [(''label'', JStr ''ACCESS_ISSUE''), (''confidence'', JFloat (9 / 10))]])]"

definition healthy :: collaborators where
  "healthy =
     \<lparr> predict = (\<lambda>p. ok_response access_issue),
       retrieve = (\<lambda>p. ok_response (JDict [(''sops'',
           JList [JDict [(''datapoint_id'', JStr ''sop-7''), (''score'', JFloat (8 / 10)),
                         (''content'', JStr ''Request the gate code.'')]])])),
       decide = (\<lambda>p. ok_response (JDict [(''decision'', JDict [])])),
       execute = (\<lambda>p. ok_response (JDict [(''sheet_updated'', JBool True)])) \<rparr>"


text \<open>Retrieval answering 200 with no match, with a body that is not JSON, and with a
  match that carries no score.\<close>

definition no_match :: collaborators where
  "no_match = healthy\<lparr> retrieve := (\<lambda>p. ok_response (JDict [(''sops'', JList [])])) \<rparr>"

definition retrieval_not_json :: collaborators where
  "retrieval_not_json = healthy\<lparr> retrieve := (\<lambda>p. unparsable_response) \<rparr>"

definition retrieval_without_score :: collaborators where
  "retrieval_without_score =
     healthy\<lparr> retrieve := (\<lambda>p. ok_response (JDict [(''sops'',
        JList [JDict [(''datapoint_id'', JStr ''sop-7''),
                      (''content'', JStr ''Request the gate code.'')]])])) \<rparr>"

text \<open>Agent 1 answering 200 with \<^verbatim>\<open>predicted_label: null\<close>, and Retrieval answering 200
  with no match.\<close>

definition null_label :: collaborators where
  "null_label =
     no_match\<lparr> predict := (\<lambda>p. ok_response
        (JDict [(''predicted_label'', JNull), (''confidence'', JFloat (9 / 10))])) \<rparr>"

section \<open>Classifier client: \<^verbatim>\<open>ClassificationAgent.classify\<close>\<close>

text \<open>The LangGraph state is a dict from field names to values.\<close>

type_synonym agent_state = "string \<rightharpoonup> json"

text \<open>\<^verbatim>\<open>state[key]\<close>.\<close>

definition state_item :: "agent_state \<Rightarrow> string \<Rightarrow> py_exc + json" where
  "state_item state k = (case state k of None \<Rightarrow> Inl (KeyError k) | Some v \<Rightarrow> Inr v)"

text \<open>The request payload: the seven delivery fields, each read with \<^verbatim>\<open>state[...]\<close>.\<close>

definition classify_payload :: "agent_state \<Rightarrow> py_exc + json" where
  "classify_payload state =
     and_then (state_item state ''driver_note'') (\<lambda>dn.
     and_then (state_item state ''gps_deviation_km'') (\<lambda>gps.
     and_then (state_item state ''weather_condition'') (\<lambda>wc.
     and_then (state_item state ''attempts'') (\<lambda>att.
     and_then (state_item state ''hub_delay_minutes'') (\<lambda>hub.
     and_then (state_item state ''package_scan_result'') (\<lambda>ps.
     and_then (state_item state ''time_of_day'') (\<lambda>td.
       Inr (JDict [(''driver_note'', dn), (''gps_deviation_km'', gps),
                   (''weather_condition'', wc), (''attempts'', att),
                   (''hub_delay_minutes'', hub), (''package_scan_result'', ps),
                   (''time_of_day'', td)]))))))))"

text \<open>The keys of the state the payload is built from.\<close>

definition delivery_fields :: "string list" where
  "delivery_fields =
     [''driver_note'', ''gps_deviation_km'', ''weather_condition'', ''attempts'',
      ''hub_delay_minutes'', ''package_scan_result'', ''time_of_day'']"

text \<open>The loop that prints the top predictions: each visited entry is subscripted with
  \<^verbatim>\<open>'label'\<close> and \<^verbatim>\<open>'confidence'\<close>, and the confidence is formatted with \<^verbatim>\<open>:.4f\<close>.\<close>

fun print_top_predictions :: "json list \<Rightarrow> py_exc + unit" where
  "print_top_predictions [] = Inr ()"
| "print_top_predictions (pred # preds) =
     and_then (py_item pred ''label'') (\<lambda>l.
     and_then (py_item pred ''confidence'') (\<lambda>c.
     and_then (format_float c) (\<lambda>u. print_top_predictions preds)))"

text \<open>
  \<^verbatim>\<open>classify\<close>.  Both except clauses re-raise, so every exception of the block leaves
  the method.  The message of the exception raised on a status other than 200 is
  shortened to its fixed part.
\<close>

definition classify :: "(json \<Rightarrow> http_outcome) \<Rightarrow> agent_state \<Rightarrow> py_exc + agent_state" where
  "classify post_predict state =
     and_then (classify_payload state) (\<lambda>payload.
       case post_predict payload of
         Raises e \<Rightarrow> Inl e
       | Responds response \<Rightarrow>
           if status_code response \<noteq> 200
           then Inl (OtherException ''Classification API returned status'')
           else (case json_body response of
                   None \<Rightarrow> Inl JSONDecodeError
                 | Some result \<Rightarrow>
                     and_then (py_item result ''predicted_label'') (\<lambda>pl.
                     and_then (py_item result ''confidence'') (\<lambda>cf.
                     and_then (format_float cf) (\<lambda>u.
                     and_then (py_get result ''top_predictions'' (JList [])) (\<lambda>tp.
                     and_then (py_slice_to 3 tp) (\<lambda>preds.
                     and_then (print_top_predictions preds) (\<lambda>u'.
                       Inr (state(''predicted_label'' \<mapsto> pl, ''confidence'' \<mapsto> cf))))))))))"

text \<open>A top prediction the printing loop accepts: a dict with a label and a confidence
  that \<^verbatim>\<open>:.4f\<close> can format.\<close>

fun printable_prediction :: "json \<Rightarrow> bool" where
  "printable_prediction (JDict p) =
     (map_of p ''label'' \<noteq> None \<and>
      (case map_of p ''confidence'' of Some c \<Rightarrow> format_float c = Inr () | None \<Rightarrow> False))"
| "printable_prediction v = False"

text \<open>The scenario of the specification as a LangGraph state, and two answers of the
  classification collaborator.\<close>

definition gate_locked_state :: agent_state where
  "gate_locked_state =
     [''driver_note'' \<mapsto> JStr ''gate locked'', ''gps_deviation_km'' \<mapsto> JFloat (2 / 10),
      ''weather_condition'' \<mapsto> JStr ''Clear'', ''attempts'' \<mapsto> JInt 2,
      ''hub_delay_minutes'' \<mapsto> JInt 10, ''package_scan_result'' \<mapsto> JStr ''OK'',
      ''time_of_day'' \<mapsto> JStr ''Afternoon'']"

definition without_top_predictions :: json where
  "without_top_predictions =
     JDict [(''predicted_label'', JStr ''ACCESS_ISSUE''), (''confidence'', JFloat (9 / 10))]"

definition confidence_out_of_range :: json where
  "confidence_out_of_range =
     JDict [(''predicted_label'', JStr ''ACCESS_ISSUE''), (''confidence'', JFloat (3 / 2)),
            (''top_predictions'',
               JList [JDict [(''label'', JStr ''ACCESS_ISSUE''), (''confidence'', JFloat (3 / 2))]])]"


section \<open>Decider client: \<^verbatim>\<open>decision_api.make_decision\<close> and \<^verbatim>\<open>DecisionAgent.make_decision\<close>\<close>

text \<open>
  Library functions whose results the code uses but whose definition is not part of
  the repository: \<^verbatim>\<open>json.loads\<close> (\<open>None\<close> when it raises \<^verbatim>\<open>JSONDecodeError\<close>),
  \<^verbatim>\<open>str.strip\<close>, \<^verbatim>\<open>float\<close> on a string (\<open>None\<close> when it raises \<^verbatim>\<open>ValueError\<close>),
  \<^verbatim>\<open>str\<close> on a value, and the three float formats \<^verbatim>\<open>.4f\<close>, \<^verbatim>\<open>.2f\<close> and \<^verbatim>\<open>.2%\<close>.
\<close>

record python =
  json_loads :: "string \<Rightarrow> json option"
  strip :: "string \<Rightarrow> string"
  float_of_str :: "string \<Rightarrow> real option"
  str_of :: "json \<Rightarrow> string"
  format_4f :: "real \<Rightarrow> string"
  format_2f :: "real \<Rightarrow> string"
  format_pct :: "real \<Rightarrow> string"

















text \<open>A parsed decision whose present fields have the declared types: strings, a
  boolean escalation flag and a numeric confidence.\<close>

definition typed_or_missing :: "(json \<Rightarrow> bool) \<Rightarrow> pydict \<Rightarrow> string \<Rightarrow> bool" where
  "typed_or_missing is_t d k = (case map_of d k of None \<Rightarrow> True | Some v \<Rightarrow> is_t v)"

fun is_str :: "json \<Rightarrow> bool" where
  "is_str (JStr s) = True"
| "is_str v = False"

fun is_bool :: "json \<Rightarrow> bool" where
  "is_bool (JBool b) = True"
| "is_bool v = False"

fun is_number :: "json \<Rightarrow> bool" where
  "is_number (JFloat r) = True"
| "is_number (JInt i) = fits_float i"
| "is_number v = False"

definition decision_fields_typed :: "pydict \<Rightarrow> bool" where
  "decision_fields_typed d =
     (typed_or_missing is_str d ''recommended_action'' \<and>
      typed_or_missing is_str d ''driver_instruction'' \<and>
      typed_or_missing is_str d ''customer_message'' \<and>
      typed_or_missing is_bool d ''requires_escalation'' \<and>
      typed_or_missing is_number d ''confidence'' \<and>
      typed_or_missing is_str d ''reasoning_summary'')"

text \<open>The value of a field of a typed decision, or a default when it is missing.\<close>

definition str_or :: "pydict \<Rightarrow> string \<Rightarrow> string \<Rightarrow> string" where
  "str_or d k dflt = (case map_of d k of Some (JStr s) \<Rightarrow> s | _ \<Rightarrow> dflt)"

definition bool_or :: "pydict \<Rightarrow> string \<Rightarrow> bool \<Rightarrow> bool" where
  "bool_or d k dflt = (case map_of d k of Some (JBool b) \<Rightarrow> b | _ \<Rightarrow> dflt)"


text \<open>A stand-in for the library functions, used on concrete inputs: it parses two
  texts, an answer of the LLM that gives only a customer message, and one that gives
  an action and the confidence in words; \<^verbatim>\<open>float\<close> rejects every string it is given.\<close>

definition message_only_text :: string where
  "message_only_text = ''{\"customer_message\": \"We will retry tomorrow.\"}''"

definition message_only :: pydict where
  "message_only = [(''customer_message'', JStr ''We will retry tomorrow.'')]"

definition confidence_in_words_text :: string where
  "confidence_in_words_text =
     ''{\"recommended_action\": \"Retry delivery\", \"confidence\": \"high\"}''"

definition confidence_in_words :: pydict where
  "confidence_in_words =
     [(''recommended_action'', JStr ''Retry delivery''), (''confidence'', JStr ''high'')]"

definition toy_python :: python where
  "toy_python =
     \<lparr> json_loads = (\<lambda>s. if s = message_only_text then Some (JDict message_only)
                          else if s = confidence_in_words_text
                          then Some (JDict confidence_in_words) else None),
       strip = (\<lambda>s. s), float_of_str = (\<lambda>s. None), str_of = (\<lambda>v. []),
       format_4f = (\<lambda>r. []), format_2f = (\<lambda>r. []), format_pct = (\<lambda>r. []) \<rparr>"


section \<open>Executor: \<^verbatim>\<open>action_executor_api.execute_actions\<close> and \<^verbatim>\<open>ActionExecutorAgent\<close>\<close>

text \<open>\<^verbatim>\<open>ActionRequest\<close>, validated by the web framework; the fields carry the prefix
  \<open>ar_\<close>.  \<^verbatim>\<open>ActionResponse\<close> has the four fields of \<^verbatim>\<open>ActionOutput\<close> and two more.\<close>

record action_request =
  ar_driver_note :: string
  ar_gps_deviation_km :: real
  ar_weather_condition :: string
  ar_attempts :: int
  ar_hub_delay_minutes :: int
  ar_package_scan_result :: string
  ar_time_of_day :: string
  ar_predicted_label :: string
  ar_confidence :: real
  ar_top_predictions :: "pydict list option"
  ar_sop_retrieved :: bool
  ar_sop_id :: "string option"
  ar_decision :: "pydict option"

record action_response = action_output +
  resp_status :: string
  resp_agent :: string

text \<open>\<^verbatim>\<open>d.get(key, default)\<close> on a dict.\<close>

definition dict_get :: "pydict \<Rightarrow> string \<Rightarrow> json \<Rightarrow> json" where
  "dict_get d k dflt = (case map_of d k of None \<Rightarrow> dflt | Some v \<Rightarrow> v)"

text \<open>\<^verbatim>\<open>request.decision or {}\<close>.\<close>

definition decision_or_empty :: "action_request \<Rightarrow> pydict" where
  "decision_or_empty request = (case ar_decision request of None \<Rightarrow> [] | Some d \<Rightarrow> d)"

definition safe_str :: "python \<Rightarrow> json \<Rightarrow> string" where
  "safe_str lib v =
     (if v = JNull then []
      else (let s = str_of lib v in if length s > 500 then take 500 s @ ''...'' else s))"

text \<open>An f-string field with a float format: the text for a number, an exception for
  anything else.\<close>

fun format_number :: "(real \<Rightarrow> string) \<Rightarrow> json \<Rightarrow> py_exc + string" where
  "format_number f (JFloat r) = Inr (f r)"
| "format_number f (JInt i) = (if fits_float i then Inr (f (of_int i)) else Inl OverflowError)"
| "format_number f (JBool b) = Inr (f (if b then 1 else 0))"
| "format_number f (JStr s) = Inl ValueError"
| "format_number f v = Inl TypeError"

text \<open>\<^verbatim>\<open>build_row\<close>; \<open>row_time\<close> is the formatted current time.\<close>

definition build_row :: "python \<Rightarrow> string \<Rightarrow> action_request \<Rightarrow> py_exc + json list" where
  "build_row lib row_time request =
     (let decision = decision_or_empty request;
          status = (if truthy (dict_get decision ''requires_escalation'' JNull) then ''ESCALATED''
                    else if truthy (dict_get decision ''recommended_action'' JNull)
                    then ''PROCESSED''
                    else if ar_predicted_label request \<noteq> [] then ''CLASSIFIED ONLY''
                    else ''ERROR'')
      in and_then
           (case ar_top_predictions request of
              None \<Rightarrow> Inr (JStr [], JStr [])
            | Some tps \<Rightarrow>
                if length tps \<ge> 2
                then and_then (format_number (format_4f lib)
                                 (dict_get (tps ! 1) ''confidence'' (JInt 0))) (\<lambda>second_conf.
                       Inr (dict_get (tps ! 1) ''label'' (JStr []), JStr second_conf))
                else Inr (JStr [], JStr []))
           (\<lambda>(second_pred, second_conf).
              and_then
                (if truthy (dict_get decision ''confidence'' JNull)
                 then format_number (format_2f lib) (dict_get decision ''confidence'' (JInt 0))
                 else Inr [])
                (\<lambda>decision_conf.
                   Inr [JStr row_time,
                        JStr status,
                        JStr (safe_str lib (JStr (ar_driver_note request))),
                        JStr (safe_str lib (JFloat (ar_gps_deviation_km request))),
                        JStr (safe_str lib (JStr (ar_weather_condition request))),
                        JStr (safe_str lib (JInt (ar_attempts request))),
                        JStr (safe_str lib (JInt (ar_hub_delay_minutes request))),
                        JStr (safe_str lib (JStr (ar_package_scan_result request))),
                        JStr (safe_str lib (JStr (ar_time_of_day request))),
                        JStr (safe_str lib (JStr (ar_predicted_label request))),
                        JStr (format_4f lib (ar_confidence request)),
                        second_pred,
                        second_conf,
                        JStr (if ar_sop_retrieved request then ''Yes'' else ''No''),
                        JStr (safe_str lib
                                (case ar_sop_id request of None \<Rightarrow> JNull | Some s \<Rightarrow> JStr s)),
                        JStr (safe_str lib (dict_get decision ''recommended_action'' (JStr []))),
                        JStr (safe_str lib (dict_get decision ''driver_instruction'' (JStr []))),
                        JStr (safe_str lib (dict_get decision ''customer_message'' (JStr []))),
                        JStr (if truthy (dict_get decision ''requires_escalation'' JNull)
                              then ''Yes'' else ''No''),
                        JStr decision_conf,
                        JStr (safe_str lib (dict_get decision ''reasoning_summary'' (JStr [])))])))"

text \<open>
  The process-wide state of the API: \<^verbatim>\<open>sheets_initialized\<close> and \<^verbatim>\<open>worksheet\<close>.  A
  worksheet holds its rows; \<open>append_error\<close> is the exception \<^verbatim>\<open>append_row\<close> raises
  when the backend cannot be reached, if any.
\<close>

record gsheet =
  rows :: "json list list"
  append_error :: "py_exc option"

record sheets =
  sheets_initialized :: bool
  worksheet :: "gsheet option"

definition sheet_rows :: "sheets \<Rightarrow> json list list" where
  "sheet_rows sh = (case worksheet sh of None \<Rightarrow> [] | Some ws \<Rightarrow> rows ws)"

text \<open>The two e-mails the API simulates by printing.\<close>

datatype simulated_email = EscalationEmail string | CustomerNotification json

text \<open>
  Action 1 (lines 252 to 265).  With an initialised worksheet the row is built and
  appended inside \<^verbatim>\<open>try\<close>; otherwise the API is in simulation mode, prints the first
  50 characters of the recommended action (outside any \<^verbatim>\<open>try\<close>) and sets
  \<^verbatim>\<open>sheet_updated = True\<close>.
\<close>

definition log_to_sheets ::
  "python \<Rightarrow> string \<Rightarrow> sheets \<Rightarrow> action_request \<Rightarrow> (py_exc + bool) \<times> sheets" where
  "log_to_sheets lib row_time sh request =
     (case (sheets_initialized sh, worksheet sh) of
        (True, Some ws) \<Rightarrow>
          (case build_row lib row_time request of
             Inl e \<Rightarrow> (Inr False, sh)
           | Inr row \<Rightarrow>
               (case append_error ws of
                  Some e \<Rightarrow> (Inr False, sh)
                | None \<Rightarrow> (Inr True, sh\<lparr> worksheet := Some (ws\<lparr> rows := rows ws @ [row] \<rparr>) \<rparr>)))
      | _ \<Rightarrow>
          (case py_slice_to 50
                  (dict_get (decision_or_empty request) ''recommended_action'' (JStr ''N/A'')) of
             Inl e \<Rightarrow> (Inl e, sh)
           | Inr shown \<Rightarrow> (Inr True, sh)))"

text \<open>Action 2 (lines 270 to 280): whether an e-mail is simulated, and which.\<close>

definition simulate_email ::
  "action_request \<Rightarrow> json \<Rightarrow> py_exc + bool \<times> simulated_email list" where
  "simulate_email request requires_escalation0 =
     (let customer_message0 = dict_get (decision_or_empty request) ''customer_message'' (JStr [])
      in if truthy customer_message0 \<or> truthy requires_escalation0
         then (if truthy requires_escalation0
               then Inr (True, [EscalationEmail (ar_predicted_label request)])
               else and_then (py_slice_to 100 customer_message0) (\<lambda>shown.
                      Inr (True, [CustomerNotification customer_message0])))
         else Inr (False, []))"

text \<open>
  The endpoint \<^verbatim>\<open>/execute\<close>: the response or the exception that leaves the function,
  the state of the sheet afterwards and the e-mails simulated.  \<open>now\<close> is
  \<^verbatim>\<open>datetime.utcnow().isoformat()\<close>.
\<close>

definition execute_actions ::
  "pydantic \<Rightarrow> python \<Rightarrow> string \<Rightarrow> string \<Rightarrow> sheets \<Rightarrow> action_request \<Rightarrow>
   (py_exc + action_response) \<times> sheets \<times> simulated_email list" where
  "execute_actions V lib now row_time sh request =
     (let requires_escalation0 =
            dict_get (decision_or_empty request) ''requires_escalation'' (JBool False)
      in case log_to_sheets lib row_time sh request of
           (Inl e, sh') \<Rightarrow> (Inl e, sh', [])
         | (Inr updated, sh') \<Rightarrow>
             (case simulate_email request requires_escalation0 of
                Inl e \<Rightarrow> (Inl e, sh', [])
              | Inr (simulated, emails) \<Rightarrow>
                  (case v_bool V requires_escalation0 of
                     None \<Rightarrow> (Inl ValidationError, sh', emails)
                   | Some esc \<Rightarrow>
                       (Inr \<lparr> sheet_updated = updated, email_simulated = simulated,
                              escalated = esc, timestamp = now @ ''Z'',
                              resp_status = ''success'', resp_agent = ''agent4_action'' \<rparr>,
                        sh', emails))))"








text \<open>A request whose decision, when there is one, has typed fields; and the
  decision the executor acts on when a field is missing.\<close>

definition request_typed :: "action_request \<Rightarrow> bool" where
  "request_typed request = decision_fields_typed (decision_or_empty request)"

definition message_of :: "pydict \<Rightarrow> string" where
  "message_of d = str_or d ''customer_message'' []"

definition escalation_of :: "pydict \<Rightarrow> bool" where
  "escalation_of d = bool_or d ''requires_escalation'' False"

text \<open>Concrete requests and sheet states.\<close>

definition plain_request :: action_request where
  "plain_request =
     \<lparr> ar_driver_note = ''gate locked'', ar_gps_deviation_km = 2 / 10,
       ar_weather_condition = ''Clear'', ar_attempts = 2, ar_hub_delay_minutes = 10,
       ar_package_scan_result = ''OK'', ar_time_of_day = ''Afternoon'',
       ar_predicted_label = ''ACCESS_ISSUE'', ar_confidence = 9 / 10,
       ar_top_predictions = None, ar_sop_retrieved = False, ar_sop_id = None,
       ar_decision = None \<rparr>"

definition escalating_request :: action_request where
  "escalating_request =
     plain_request\<lparr> ar_decision :=
       Some [(''recommended_action'', JStr ''Call the dispatcher''),
             (''requires_escalation'', JBool True)] \<rparr>"

definition no_sheets :: sheets where
  "no_sheets = \<lparr> sheets_initialized = False, worksheet = None \<rparr>"

definition sheets_up :: sheets where
  "sheets_up =
     \<lparr> sheets_initialized = True, worksheet = Some \<lparr> rows = [], append_error = None \<rparr> \<rparr>"

definition sheets_down :: sheets where
  "sheets_down =
     \<lparr> sheets_initialized = True,
       worksheet = Some \<lparr> rows = [], append_error = Some (OtherException ''APIError'') \<rparr> \<rparr>"



section \<open>Properties of the pipeline builder\<close>

lemma py_or_idem: "py_or (py_or x y) y = py_or x y"
  by (simp add: py_or_def)

lemma stage_sequence_assemble:
  "stage_sequence (assemble_graph c s d a) =
     ''classify'' # (if s = None then [] else [''retrieve_sop'']) @
     (if d = None then [] else [''make_decision'']) @ [''execute_actions'']"
proof (cases s; cases d)
qed (simp_all add: assemble_graph_def stage_sequence_def add_node_def add_edge_def
       set_entry_point_def StateGraph_def END_def)

lemma nodes_assemble:
  "map fst (nodes (assemble_graph c s d a)) =
     ''classify'' # (if s = None then [] else [''retrieve_sop'']) @
     (if d = None then [] else [''make_decision'']) @ [''execute_actions'']"
proof (cases s; cases d)
qed (simp_all add: assemble_graph_def add_node_def add_edge_def
       set_entry_point_def StateGraph_def)

text \<open>The edges form the chain of the stage sequence, closed by \<^verbatim>\<open>END\<close>.\<close>

lemma edges_assemble:
  "edges (assemble_graph c s d a) =
     zip (stage_sequence (assemble_graph c s d a))
         (tl (stage_sequence (assemble_graph c s d a)) @ [END])"
  unfolding stage_sequence_assemble
proof (cases s; cases d)
qed (simp_all add: assemble_graph_def add_node_def add_edge_def
       set_entry_point_def StateGraph_def)

lemma classify_node_assemble:
  "map_of (nodes (assemble_graph c s d a)) ''classify'' = Some c"
proof (cases s; cases d)
qed (simp_all add: assemble_graph_def add_node_def add_edge_def
       set_entry_point_def StateGraph_def)

lemma sop_factory_result:
  "create_sop_retrieval_agent env cl p r i e d =
     (if truthy_str (py_or p (getenv env ''GCP_PROJECT_ID'')) \<and>
         truthy_str (py_or i (getenv env ''VERTEX_AI_INDEX_ID'')) \<and>
         truthy_str (py_or e (getenv env ''VERTEX_AI_ENDPOINT_ID'')) \<and>
         truthy_str (py_or d (getenv env ''VERTEX_AI_DEPLOYED_INDEX_ID''))
      then (case vertex_search_init cl of
              Some x \<Rightarrow> Inl x
            | None \<Rightarrow> Inr (Some (SOPRetrievalAgentWrapper
                 (the (py_or p (getenv env ''GCP_PROJECT_ID'')))
                 (py_or r (getenv_default env ''GCP_REGION'' ''us-central1''))
                 (the (py_or i (getenv env ''VERTEX_AI_INDEX_ID'')))
                 (the (py_or e (getenv env ''VERTEX_AI_ENDPOINT_ID'')))
                 (the (py_or d (getenv env ''VERTEX_AI_DEPLOYED_INDEX_ID''))))))
      else Inr None)"
  by (simp add: create_sop_retrieval_agent_def Let_def split: option.splits)

lemma decision_agent_result:
  "(init_decision_agent env cl (py_or (project_id args) (getenv env ''GCP_PROJECT_ID'')) r m
      \<noteq> None) = (llm_project_present env args \<and> chat_vertex_init cl = None)"
  by (auto simp: init_decision_agent_def create_decision_agent_def llm_project_present_def
        py_or_idem Let_def split: option.splits)

text \<open>The body fails only through the constructor of the retrieval client; otherwise it
  assembles the graph.\<close>

lemma body_result:
  "create_exception_workflow_body env cl args =
     (if retrieval_configured env args \<and> vertex_search_init cl \<noteq> None
      then Inl (the (vertex_search_init cl))
      else Inr (assemble_graph (ClassificationAgent (api_url args))
                 (if retrieval_configured env args
                  then Some (SOPRetrievalAgentWrapper
                    (the (py_or (project_id args) (getenv env ''GCP_PROJECT_ID'')))
                    (py_or (region args) (getenv_default env ''GCP_REGION'' ''us-central1''))
                    (the (py_or (index_id args) (getenv env ''VERTEX_AI_INDEX_ID'')))
                    (the (py_or (endpoint_id args) (getenv env ''VERTEX_AI_ENDPOINT_ID'')))
                    (the (py_or (deployed_index_id args)
                            (getenv env ''VERTEX_AI_DEPLOYED_INDEX_ID''))))
                  else None)
                 (init_decision_agent env cl
                    (py_or (project_id args) (getenv env ''GCP_PROJECT_ID''))
                    (py_or (region args) (getenv_default env ''GCP_REGION'' ''us-central1''))
                    (llm_model_name args))
                 (create_action_executor_agent env (customer_email args)
                    (dispatcher_email args))))"
  by (auto simp: create_exception_workflow_body_def sop_factory_result retrieval_configured_def
        py_or_idem Let_def split: option.splits)

lemma built_graph:
  assumes "create_exception_workflow imported env cl args = Inr g"
  shows "imported = None \<and>
         stage_sequence g =
           ''classify'' #
           (if retrieval_configured env args then [''retrieve_sop''] else []) @
           (if llm_project_present env args \<and> chat_vertex_init cl = None
            then [''make_decision''] else []) @
           [''execute_actions''] \<and>
         map fst (nodes g) = stage_sequence g \<and>
         edges g = zip (stage_sequence g) (tl (stage_sequence g) @ [END]) \<and>
         map_of (nodes g) ''classify'' = Some (ClassificationAgent (api_url args))"
proof -
  from assms have i: "imported = None"
    and b: "create_exception_workflow_body env cl args = Inr g"
    by (auto simp: create_exception_workflow_def split: option.splits)
  let ?p = "py_or (project_id args) (getenv env ''GCP_PROJECT_ID'')"
  let ?r = "py_or (region args) (getenv_default env ''GCP_REGION'' ''us-central1'')"
  obtain s where g: "g = assemble_graph (ClassificationAgent (api_url args)) s
                  (init_decision_agent env cl ?p ?r (llm_model_name args))
                  (create_action_executor_agent env (customer_email args)
                     (dispatcher_email args))"
    and s: "(s = None) = (\<not> retrieval_configured env args)"
    using b unfolding body_result by (auto split: if_splits)
  have d: "(init_decision_agent env cl ?p ?r (llm_model_name args) = None) =
             (\<not> (llm_project_present env args \<and> chat_vertex_init cl = None))"
    using decision_agent_result [of env cl args ?r "llm_model_name args"] by blast
  have seq: "stage_sequence g =
           ''classify'' #
           (if retrieval_configured env args then [''retrieve_sop''] else []) @
           (if llm_project_present env args \<and> chat_vertex_init cl = None
            then [''make_decision''] else []) @
           [''execute_actions'']"
    unfolding g stage_sequence_assemble s d by simp
  have n: "map fst (nodes g) = stage_sequence g"
    unfolding g nodes_assemble stage_sequence_assemble by simp
  have e: "edges g = zip (stage_sequence g) (tl (stage_sequence g) @ [END])"
    unfolding g by (rule edges_assemble)
  have c: "map_of (nodes g) ''classify'' = Some (ClassificationAgent (api_url args))"
    unfolding g by (rule classify_node_assemble)
  from i seq n e c show ?thesis
    by simp
qed

lemma retrieval_configured_api_url [simp]:
  "retrieval_configured env (args\<lparr>api_url := u\<rparr>) = retrieval_configured env args"
  by (simp add: retrieval_configured_def)

text \<open>
  C3 (as amended).  The builder has no check of the Classification configuration and no
  \<^verbatim>\<open>ConfigurationError\<close>: whatever \<^verbatim>\<open>api_url\<close> is (absent, empty or set), a call fails
  exactly when the module could not be imported, or the Retrieval stage is fully
  configured and the constructor of its Vertex AI client raises, each time with that
  exception; every topology it returns starts with the Classification stage, built on
  the given \<^verbatim>\<open>api_url\<close>.
\<close>

theorem build_without_classification_config:
  "(create_exception_workflow imported env cl (args\<lparr>api_url := u\<rparr>) = Inl e) =
     (imported = Some e \<or>
      (imported = None \<and> retrieval_configured env args \<and> vertex_search_init cl = Some e)) \<and>
   (\<forall>g. create_exception_workflow imported env cl (args\<lparr>api_url := u\<rparr>) = Inr g \<longrightarrow>
      hd (stage_sequence g) = ''classify'' \<and>
      map_of (nodes g) ''classify'' = Some (ClassificationAgent u))"
proof (intro conjI allI impI)
  show "(create_exception_workflow imported env cl (args\<lparr>api_url := u\<rparr>) = Inl e) =
     (imported = Some e \<or>
      (imported = None \<and> retrieval_configured env args \<and> vertex_search_init cl = Some e))"
    by (cases imported) (auto simp: create_exception_workflow_def body_result)
next
  fix g
  assume "create_exception_workflow imported env cl (args\<lparr>api_url := u\<rparr>) = Inr g"
  from built_graph [OF this]
  show "hd (stage_sequence g) = ''classify''"
    and "map_of (nodes g) ''classify'' = Some (ClassificationAgent u)"
    by simp_all
qed

text \<open>
  C3 as stated fails.  With no Classification backing (\<^verbatim>\<open>api_url=None\<close>, empty
  environment) the shipped module fails with \<^verbatim>\<open>SyntaxError\<close>, as it does for every
  configuration, and once the module is imported the body returns a topology instead
  of raising.
\<close>

theorem missing_classification_config_counterexample:
  "create_exception_workflow shipped_import Map.empty cloud_ok no_classifier_args =
     Inl SyntaxError \<and>
   map_sum id stage_sequence
     (create_exception_workflow None Map.empty cloud_ok no_classifier_args) =
   Inr [''classify'', ''execute_actions'']"
  by (simp add: create_exception_workflow_def shipped_import_def body_result
      stage_sequence_assemble retrieval_configured_def
      no_classifier_args_def default_args_def cloud_ok_def py_or_def truthy_str_def getenv_def
      init_decision_agent_def)

theorem build_without_classification_config_witness:
  "create_exception_workflow shipped_import Map.empty cloud_ok
     (default_args\<lparr>api_url := None\<rparr>) = Inl SyntaxError \<and>
   hd (stage_sequence (projr (create_exception_workflow None Map.empty cloud_ok
        (default_args\<lparr>api_url := None\<rparr>)))) = ''classify''"
proof -
  have r: "create_exception_workflow None Map.empty cloud_ok (default_args\<lparr>api_url := None\<rparr>) =
     Inr (projr (create_exception_workflow None Map.empty cloud_ok
                   (default_args\<lparr>api_url := None\<rparr>)))"
    by (simp add: create_exception_workflow_def body_result retrieval_configured_def
        default_args_def cloud_ok_def py_or_def truthy_str_def getenv_def)
  from build_without_classification_config [where imported = shipped_import
      and env = Map.empty and cl = cloud_ok and args = default_args and u = None
      and e = SyntaxError]
  have "create_exception_workflow shipped_import Map.empty cloud_ok
          (default_args\<lparr>api_url := None\<rparr>) = Inl SyntaxError"
    by (simp add: shipped_import_def)
  moreover from build_without_classification_config [where imported = None
      and env = Map.empty and cl = cloud_ok and args = default_args and u = None
      and e = SyntaxError] r
  have "hd (stage_sequence (projr (create_exception_workflow None Map.empty cloud_ok
        (default_args\<lparr>api_url := None\<rparr>)))) = ''classify''"
    by blast
  ultimately show ?thesis
    by simp
qed

text \<open>What the body of the builder does for the order of the stages: every sequence
  it builds starts with Classification and ends with Execution, keeps the fixed order,
  and places the Decision stage, which needs an LLM project, directly after Retrieval
  when Retrieval is included and directly after Classification otherwise.\<close>

lemma stage_order_when_built:
  assumes "create_exception_workflow imported env cl args = Inr g"
  shows "hd (stage_sequence g) = ''classify'' \<and>
         last (stage_sequence g) = ''execute_actions'' \<and>
         subseq (stage_sequence g) all_stages \<and>
         (''make_decision'' \<in> set (stage_sequence g) \<longrightarrow>
            llm_project_present env args \<and>
            predecessor (stage_sequence g) ''make_decision'' =
              Some (if ''retrieve_sop'' \<in> set (stage_sequence g)
                    then ''retrieve_sop'' else ''classify''))"
  using built_graph [OF assms] unfolding all_stages_def
  by simp

lemma stage_order_after_import:
  "map_sum id stage_sequence (create_exception_workflow None Map.empty cloud_ok full_args) =
     Inr [''classify'', ''retrieve_sop'', ''make_decision'', ''execute_actions'']"
  by (simp add: create_exception_workflow_def body_result stage_sequence_assemble
      retrieval_configured_def full_args_def default_args_def cloud_ok_def py_or_def
      truthy_str_def getenv_def init_decision_agent_def create_decision_agent_def)

text \<open>
  C4 fails on the code as shipped.  The claim promises a stage sequence for every
  configuration, and the body of the builder would give it the promised order; but the
  module that defines the builder does not compile, so every call fails with
  \<^verbatim>\<open>SyntaxError\<close> and no stage sequence is ever built.
\<close>

theorem shipped_builder_never_builds:
  "create_exception_workflow shipped_import env cl args = Inl SyntaxError \<and>
   create_exception_workflow shipped_import Map.empty cloud_ok full_args = Inl SyntaxError"
  by (simp add: create_exception_workflow_def shipped_import_def)

text \<open>
  C5 (as amended).  The retrieval factory returns an agent if and only if the project
  identity is present together with the index, endpoint and deployed-index identities
  (and the constructor of the client does not raise), and returns \<^verbatim>\<open>None\<close> as soon as
  one of the four is absent.  A stage sequence that is built includes the Retrieval
  stage if and only if the four are present; otherwise no node and no edge of the graph
  names the stage.
\<close>

theorem retrieval_included_iff:
  "(\<exists>a. create_sop_retrieval_agent env cl p r i e d = Inr (Some a)) =
     (truthy_str (py_or p (getenv env ''GCP_PROJECT_ID'')) \<and>
      truthy_str (py_or i (getenv env ''VERTEX_AI_INDEX_ID'')) \<and>
      truthy_str (py_or e (getenv env ''VERTEX_AI_ENDPOINT_ID'')) \<and>
      truthy_str (py_or d (getenv env ''VERTEX_AI_DEPLOYED_INDEX_ID'')) \<and>
      vertex_search_init cl = None) \<and>
   (create_sop_retrieval_agent env cl p r i e d = Inr None) =
     (\<not> (truthy_str (py_or p (getenv env ''GCP_PROJECT_ID'')) \<and>
         truthy_str (py_or i (getenv env ''VERTEX_AI_INDEX_ID'')) \<and>
         truthy_str (py_or e (getenv env ''VERTEX_AI_ENDPOINT_ID'')) \<and>
         truthy_str (py_or d (getenv env ''VERTEX_AI_DEPLOYED_INDEX_ID'')))) \<and>
   (\<forall>g. create_exception_workflow imported env cl args = Inr g \<longrightarrow>
      (''retrieve_sop'' \<in> set (stage_sequence g)) =
        (llm_project_present env args \<and> retrieval_ids_present env args) \<and>
      (''retrieve_sop'' \<in> set (map fst (nodes g))) =
        (llm_project_present env args \<and> retrieval_ids_present env args) \<and>
      (\<exists>x \<in> set (edges g). fst x = ''retrieve_sop'' \<or> snd x = ''retrieve_sop'') =
        (llm_project_present env args \<and> retrieval_ids_present env args))"
proof (intro conjI allI impI)
  show "(\<exists>a. create_sop_retrieval_agent env cl p r i e d = Inr (Some a)) =
     (truthy_str (py_or p (getenv env ''GCP_PROJECT_ID'')) \<and>
      truthy_str (py_or i (getenv env ''VERTEX_AI_INDEX_ID'')) \<and>
      truthy_str (py_or e (getenv env ''VERTEX_AI_ENDPOINT_ID'')) \<and>
      truthy_str (py_or d (getenv env ''VERTEX_AI_DEPLOYED_INDEX_ID'')) \<and>
      vertex_search_init cl = None)"
    by (auto simp: sop_factory_result split: option.splits)
  show "(create_sop_retrieval_agent env cl p r i e d = Inr None) =
     (\<not> (truthy_str (py_or p (getenv env ''GCP_PROJECT_ID'')) \<and>
         truthy_str (py_or i (getenv env ''VERTEX_AI_INDEX_ID'')) \<and>
         truthy_str (py_or e (getenv env ''VERTEX_AI_ENDPOINT_ID'')) \<and>
         truthy_str (py_or d (getenv env ''VERTEX_AI_DEPLOYED_INDEX_ID''))))"
    by (auto simp: sop_factory_result split: option.splits)
next
  fix g
  assume a: "create_exception_workflow imported env cl args = Inr g"
  have c: "retrieval_configured env args =
             (llm_project_present env args \<and> retrieval_ids_present env args)"
    by (simp add: retrieval_configured_def llm_project_present_def retrieval_ids_present_def)
  note b = built_graph [OF a]
  from b have seq: "stage_sequence g =
           ''classify'' #
           (if retrieval_configured env args then [''retrieve_sop''] else []) @
           (if llm_project_present env args \<and> chat_vertex_init cl = None
            then [''make_decision''] else []) @
           [''execute_actions'']"
    and n: "map fst (nodes g) = stage_sequence g"
    and e: "edges g = zip (stage_sequence g) (tl (stage_sequence g) @ [END])"
    by simp_all
  show "(''retrieve_sop'' \<in> set (stage_sequence g)) =
        (llm_project_present env args \<and> retrieval_ids_present env args)"
    unfolding seq c [symmetric] by simp
  show "(''retrieve_sop'' \<in> set (map fst (nodes g))) =
        (llm_project_present env args \<and> retrieval_ids_present env args)"
    unfolding n seq c [symmetric] by simp
  show "(\<exists>x \<in> set (edges g). fst x = ''retrieve_sop'' \<or> snd x = ''retrieve_sop'') =
        (llm_project_present env args \<and> retrieval_ids_present env args)"
    unfolding e seq c [symmetric] by (simp add: END_def)
qed

text \<open>
  C5 as stated fails: with the index, endpoint and deployed-index identities all
  present but no project identity, the factory returns no agent, and the body of the
  builder leaves the Retrieval stage out.
\<close>

theorem retrieval_ids_counterexample:
  "create_sop_retrieval_agent Map.empty cloud_ok None (Some ''us-central1'')
     (Some ''idx-1'') (Some ''ep-1'') (Some ''dep-1'') = Inr None \<and>
   retrieval_ids_present Map.empty ids_only_args \<and>
   map_sum id stage_sequence (create_exception_workflow None Map.empty cloud_ok ids_only_args) =
     Inr [''classify'', ''execute_actions'']"
  by (simp add: create_exception_workflow_def body_result sop_factory_result
      stage_sequence_assemble retrieval_configured_def retrieval_ids_present_def
      ids_only_args_def default_args_def cloud_ok_def py_or_def truthy_str_def getenv_def
      init_decision_agent_def)

theorem retrieval_included_iff_witness:
  "(\<exists>a. create_sop_retrieval_agent Map.empty cloud_ok (Some ''proj'') (Some ''us-central1'')
          (Some ''idx-1'') (Some ''ep-1'') (Some ''dep-1'') = Inr (Some a)) \<and>
   create_sop_retrieval_agent Map.empty cloud_ok None (Some ''us-central1'')
     (Some ''idx-1'') (Some ''ep-1'') (Some ''dep-1'') = Inr None \<and>
   ''retrieve_sop'' \<in> set (stage_sequence
      (projr (create_exception_workflow None Map.empty cloud_ok full_args)))"
proof -
  have r: "create_exception_workflow None Map.empty cloud_ok full_args =
     Inr (projr (create_exception_workflow None Map.empty cloud_ok full_args))"
    by (simp add: create_exception_workflow_def body_result retrieval_configured_def
        full_args_def default_args_def cloud_ok_def py_or_def truthy_str_def getenv_def)
  have p: "llm_project_present Map.empty full_args \<and> retrieval_ids_present Map.empty full_args"
    by (simp add: llm_project_present_def retrieval_ids_present_def full_args_def
        default_args_def py_or_def truthy_str_def getenv_def)
  have "\<exists>a. create_sop_retrieval_agent Map.empty cloud_ok (Some ''proj'') (Some ''us-central1'')
          (Some ''idx-1'') (Some ''ep-1'') (Some ''dep-1'') = Inr (Some a)"
    using retrieval_included_iff [where env = Map.empty and cl = cloud_ok
        and p = "Some ''proj''" and r = "Some ''us-central1''" and i = "Some ''idx-1''"
        and e = "Some ''ep-1''" and d = "Some ''dep-1''" and imported = None
        and args = full_args]
    by (simp add: py_or_def truthy_str_def cloud_ok_def)
  moreover have "create_sop_retrieval_agent Map.empty cloud_ok None (Some ''us-central1'')
     (Some ''idx-1'') (Some ''ep-1'') (Some ''dep-1'') = Inr None"
    using retrieval_included_iff [where env = Map.empty and cl = cloud_ok
        and p = None and r = "Some ''us-central1''" and i = "Some ''idx-1''"
        and e = "Some ''ep-1''" and d = "Some ''dep-1''" and imported = None
        and args = full_args]
    by (simp add: py_or_def truthy_str_def getenv_def)
  moreover have "''retrieve_sop'' \<in> set (stage_sequence
      (projr (create_exception_workflow None Map.empty cloud_ok full_args)))"
    using retrieval_included_iff [where env = Map.empty and cl = cloud_ok
        and p = None and r = None and i = None and e = None and d = None
        and imported = None and args = full_args] r p
    by blast
  ultimately show ?thesis
    by blast
qed

section \<open>Properties of the orchestrator\<close>

lemma lawful_strict: "lawful strict"
proof -
  have "all_some (map strict_dict (map JDict ds)) = Some ds" for ds
    by (induction ds) simp_all
  then show ?thesis
    by (simp add: lawful_def strict_def)
qed

lemma all_some_strict_dict:
  "all_some (map strict_dict xs) = Some ds \<Longrightarrow> xs = map JDict ds"
proof (induction xs arbitrary: ds)
  case Nil
  then show ?case by simp
next
  case (Cons x xs)
  then show ?case
    by (cases x) auto
qed

lemma lawful_dict_list:
  assumes "lawful V" and "strict_dict_list v \<noteq> None"
  shows "v_dict_list V v = strict_dict_list v"
proof (cases v)
  case (JList xs)
  with assms(2) obtain ds where ds: "all_some (map strict_dict xs) = Some ds"
    by auto
  from all_some_strict_dict [OF ds] have "xs = map JDict ds" .
  with assms(1) JList ds show ?thesis
    by (simp add: lawful_def)
qed (use assms(2) in simp_all)

text \<open>When the call to Agent 1 raises or returns a status other than 200, the stage
  fails after one request, with nothing recorded as executed.\<close>

lemma classification_stage_fails:
  assumes "predict co (agent1_payload data) = Raises e \<or>
           (predict co (agent1_payload data) = Responds r \<and> status_code r \<noteq> 200)"
  shows "classification_stage co data st =
           (Inl (case predict co (agent1_payload data) of
                   Raises (RequestError m) \<Rightarrow>
                     HTTPException 503 (''Agent 1 (Classification) unavailable: '' @ m)
                 | Raises x \<Rightarrow> x
                 | Responds resp1 \<Rightarrow>
                     HTTPException 502 (''Agent 1 (Classification) failed: '' @ text_of resp1)),
            post ''/predict'' (agent1_payload data) st)"
  using assms
  by (auto simp: classification_stage_def Let_def split: py_exc.splits)

lemma classification_stage_succeeds:
  assumes "predict co (agent1_payload data) = Responds r"
    and "status_code r = 200" and "json_body r = Some (JDict d)"
    and "agent1_well_typed d"
  shows "\<exists>pl cf. classification_stage co data st =
           (Inr \<lparr> agent1_result = d, predicted_label = pl, confidence1 = cf \<rparr>,
            executed ''agent1_classification'' (post ''/predict'' (agent1_payload data) st)) \<and>
           map_of d ''predicted_label'' = Some pl \<and> map_of d ''confidence'' = Some cf"
  using assms
  by (auto simp: classification_stage_def Let_def and_then_def agent1_well_typed_def
      split: option.splits json.splits)

lemma build_response_succeeds:
  assumes "lawful V" and "agent1_well_typed d"
    and "map_of d ''predicted_label'' = Some pl" and "map_of d ''confidence'' = Some cf"
  shows "\<exists>resp. build_response V \<lparr> agent1_result = d, predicted_label = pl, confidence1 = cf \<rparr>
                   no_sop dec act st = Inr resp \<and>
           wr_status resp = ''success'' \<and> \<not> wr_sop_retrieved resp \<and>
           wr_sop_content resp = None \<and> wr_sop_score resp = None \<and> wr_sop_id resp = None \<and>
           wr_decision resp = decision dec \<and> wr_action resp = act \<and>
           wr_agents_executed resp = agents_executed st \<and>
           Some (JStr (wr_predicted_label resp)) = map_of d ''predicted_label''"
proof -
  from assms(2,3) obtain s where s: "pl = JStr s"
    by (auto simp: agent1_well_typed_def split: option.splits json.splits)
  from assms(1,2,4) obtain x where x: "v_float V cf = Some x"
    by (auto simp: agent1_well_typed_def lawful_def split: option.splits json.splits)
  let ?c = "\<lparr> agent1_result = d, predicted_label = pl, confidence1 = cf \<rparr>"
  have ne: "strict_dict_list (top_predictions_of ?c) \<noteq> None"
    using assms(2) by (auto simp: agent1_well_typed_def top_predictions_of_def split: option.splits)
  from lawful_dict_list [OF assms(1) ne] ne
  obtain tp where tp: "v_dict_list V (top_predictions_of ?c) = Some tp"
    by (cases "strict_dict_list (top_predictions_of ?c)") auto
  from assms(1) s have "v_str V pl = Some s"
    by (simp add: lawful_def)
  with x tp assms(3) s show ?thesis
    by (simp add: build_response_def no_sop_def v_optional_def)
qed

lemma decision_stage_requests:
  "requests (snd (decision_stage V co data c sop st)) =
     requests st @ [(''/decide'', agent3_payload data c sop)]"
  by (simp add: decision_stage_def Let_def post_def executed_def
      split: http_outcome.splits option.splits sum.splits)

lemma execution_stage_requests:
  "requests (snd (execution_stage V co data c sop dec st)) =
     requests st @ [(''/execute'', agent4_payload data c sop dec)]"
  by (simp add: execution_stage_def Let_def post_def executed_def
      split: http_outcome.splits option.splits sum.splits)

lemma decision_stage_executed:
  "\<exists>xs. agents_executed (snd (decision_stage V co data c sop st)) = agents_executed st @ xs"
  by (simp add: decision_stage_def Let_def post_def executed_def
      split: http_outcome.splits option.splits sum.splits)

lemma execution_stage_executed:
  "\<exists>xs. agents_executed (snd (execution_stage V co data c sop dec st)) =
          agents_executed st @ xs"
  by (simp add: execution_stage_def Let_def post_def executed_def
      split: http_outcome.splits option.splits sum.splits)

text \<open>Agent 2 answering 200 with an empty list of SOPs leaves the slots at their
  defaults and counts as executed.\<close>

lemma retrieval_stage_no_match:
  assumes "retrieve co (agent2_payload data c) = Responds r"
    and "status_code r = 200" and "json_body r = Some (JDict d)"
    and "map_of d ''sops'' = Some (JList [])"
  shows "retrieval_stage co data c st =
           (Inr no_sop, executed ''agent2_sop_retrieval''
                          (post ''/retrieve'' (agent2_payload data c) st))"
  using assms
  by (simp add: retrieval_stage_def Let_def read_sops_def and_then_def)

text \<open>
  C1.  When the Classification stage fails (its collaborator cannot be reached, or
  answers with a status other than 200, which covers every non-2xx status), the run
  fails with that failure: \<^verbatim>\<open>run_workflow\<close> raises, the only request made is the one
  to Agent 1, and the list of executed stages is empty.
\<close>

theorem classification_failure_aborts:
  assumes "predict co (agent1_payload data) = Raises e \<or>
           (predict co (agent1_payload data) = Responds r \<and> status_code r \<noteq> 200)"
  shows "run_workflow V co data =
           (Inl (case predict co (agent1_payload data) of
                   Raises (RequestError m) \<Rightarrow>
                     HTTPException 503 (''Agent 1 (Classification) unavailable: '' @ m)
                 | Raises x \<Rightarrow> x
                 | Responds resp1 \<Rightarrow>
                     HTTPException 502 (''Agent 1 (Classification) failed: '' @ text_of resp1)),
            \<lparr> requests = [(''/predict'', agent1_payload data)], agents_executed = [] \<rparr>)"
  unfolding run_workflow_def classification_stage_fails [OF assms]
  by (simp add: post_def)

theorem classification_failure_aborts_witness:
  "run_workflow strict (healthy\<lparr> predict := (\<lambda>p. error_response 500) \<rparr>) gate_locked =
     (Inl (HTTPException 502 ''Agent 1 (Classification) failed: Internal Server Error''),
      \<lparr> requests = [(''/predict'', agent1_payload gate_locked)], agents_executed = [] \<rparr>)"
proof -
  let ?co = "healthy\<lparr> predict := (\<lambda>p. error_response 500) \<rparr>"
  have "predict ?co (agent1_payload gate_locked) = Raises ValueError \<or>
        (predict ?co (agent1_payload gate_locked) =
           Responds \<lparr> status_code = 500, text_of = ''Internal Server Error'',
                      json_body = None \<rparr> \<and>
         status_code \<lparr> status_code = 500, text_of = ''Internal Server Error'',
                       json_body = None \<rparr> \<noteq> 200)"
    by (simp add: error_response_def)
  from classification_failure_aborts [OF this, of strict]
  show ?thesis
    by (simp add: error_response_def)
qed

text \<open>What a successful Classification stage returns and records.\<close>

lemma classification_stage_result:
  assumes "classification_stage co data st = (Inr c, st1)"
  shows "map_of (agent1_result c) ''predicted_label'' = Some (predicted_label c) \<and>
         map_of (agent1_result c) ''confidence'' = Some (confidence1 c) \<and>
         st1 = executed ''agent1_classification'' (post ''/predict'' (agent1_payload data) st)"
proof (cases "predict co (agent1_payload data)")
  case (Raises e)
  with assms show ?thesis
    by (simp add: classification_stage_def Let_def split: py_exc.splits)
next
  case (Responds r)
  show ?thesis
  proof (cases "json_body r")
    case None
    with Responds assms show ?thesis
      by (simp add: classification_stage_def Let_def split: if_splits)
  next
    case (Some a1)
    show ?thesis
    proof (cases a1)
      case (JDict d)
      with Responds Some assms show ?thesis
        by (auto simp: classification_stage_def Let_def and_then_def
            split: if_splits option.splits sum.splits)
    qed (use Responds Some assms in
          \<open>simp_all add: classification_stage_def Let_def and_then_def split: if_splits\<close>)
  qed
qed

text \<open>With the SOP slots at their defaults, a response that is built reports them
  absent.\<close>

lemma build_response_no_sop:
  assumes "build_response V c no_sop dec act st = Inr resp"
  shows "wr_status resp = ''success'' \<and> \<not> wr_sop_retrieved resp \<and>
         wr_sop_content resp = None \<and> wr_sop_score resp = None \<and> wr_sop_id resp = None \<and>
         wr_agents_executed resp = agents_executed st"
  using assms
  by (auto simp: build_response_def no_sop_def v_optional_def split: option.splits)

text \<open>
  C7 (as amended).  When Classification succeeds and the Retrieval collaborator answers
  200 with zero matches, the run reaches the Execution stage, whatever the Decision and
  Execution collaborators do: the last request made is the one to the Execution stage.
  Any result the run returns has status "success", \<^verbatim>\<open>sop_retrieved\<close> false and the SOP
  content, score and id absent, with Retrieval counted as executed.  A result is
  returned whenever the answer of Agent 1 has its declared types and the response model
  accepts values of the declared types.
\<close>

theorem zero_matches_completes:
  assumes "classification_stage co data \<lparr> requests = [], agents_executed = [] \<rparr> = (Inr c, st1)"
    and "retrieve co (agent2_payload data c) = Responds r2"
    and "status_code r2 = 200" and "json_body r2 = Some (JDict d2)"
    and "map_of d2 ''sops'' = Some (JList [])"
  shows "fst (last (requests (snd (run_workflow V co data)))) = ''/execute'' \<and>
         (\<forall>resp. fst (run_workflow V co data) = Inr resp \<longrightarrow>
            wr_status resp = ''success'' \<and> \<not> wr_sop_retrieved resp \<and>
            wr_sop_content resp = None \<and> wr_sop_score resp = None \<and>
            wr_sop_id resp = None \<and>
            take 2 (wr_agents_executed resp) =
              [''agent1_classification'', ''agent2_sop_retrieval'']) \<and>
         (lawful V \<and> agent1_well_typed (agent1_result c) \<longrightarrow>
            (\<exists>resp. fst (run_workflow V co data) = Inr resp))"
proof -
  let ?st0 = "\<lparr> requests = [], agents_executed = [] \<rparr>"
  note c = classification_stage_result [OF assms(1)]
  let ?st2 = "executed ''agent2_sop_retrieval'' (post ''/retrieve'' (agent2_payload data c) st1)"
  from retrieval_stage_no_match [OF assms(2-5), of st1]
  have r: "retrieval_stage co data c st1 = (Inr no_sop, ?st2)" .
  obtain dec st3 where d: "decision_stage V co data c no_sop ?st2 = (dec, st3)"
    by (cases "decision_stage V co data c no_sop ?st2")
  obtain act st4 where e: "execution_stage V co data c no_sop dec st3 = (act, st4)"
    by (cases "execution_stage V co data c no_sop dec st3")
  have run: "run_workflow V co data = (build_response V c no_sop dec act st4, st4)"
    by (simp add: run_workflow_def assms(1) r d e)
  have "requests st4 = requests st3 @ [(''/execute'', agent4_payload data c no_sop dec)]"
    using execution_stage_requests [of V co data c no_sop dec st3] e by simp
  then have last_req: "fst (last (requests (snd (run_workflow V co data)))) = ''/execute''"
    by (simp add: run)
  obtain xs where xs: "agents_executed st3 = agents_executed ?st2 @ xs"
    using decision_stage_executed [of V co data c no_sop ?st2] d by auto
  obtain ys where ys: "agents_executed st4 = agents_executed st3 @ ys"
    using execution_stage_executed [of V co data c no_sop dec st3] e by auto
  have ex: "take 2 (agents_executed st4) = [''agent1_classification'', ''agent2_sop_retrieval'']"
    using c by (simp add: ys xs executed_def post_def)
  have returned: "wr_status resp = ''success'' \<and> \<not> wr_sop_retrieved resp \<and>
            wr_sop_content resp = None \<and> wr_sop_score resp = None \<and>
            wr_sop_id resp = None \<and>
            take 2 (wr_agents_executed resp) =
              [''agent1_classification'', ''agent2_sop_retrieval'']"
    if "fst (run_workflow V co data) = Inr resp" for resp
  proof -
    from that have "build_response V c no_sop dec act st4 = Inr resp"
      by (simp add: run)
    from build_response_no_sop [OF this] ex show ?thesis
      by simp
  qed
  have typed: "\<exists>resp. fst (run_workflow V co data) = Inr resp"
    if "lawful V \<and> agent1_well_typed (agent1_result c)"
  proof -
    from that have l: "lawful V" and w: "agent1_well_typed (agent1_result c)"
      by simp_all
    have "c = \<lparr> agent1_result = agent1_result c, predicted_label = predicted_label c,
                  confidence1 = confidence1 c \<rparr>"
      by simp
    with build_response_succeeds [OF l w c [THEN conjunct1] c [THEN conjunct2, THEN conjunct1],
        of dec act st4]
    obtain resp where "build_response V c no_sop dec act st4 = Inr resp"
      by auto
    then show ?thesis
      by (simp add: run)
  qed
  from last_req returned typed show ?thesis
    by blast
qed

theorem zero_matches_completes_witness:
  "\<exists>resp st. run_workflow strict no_match gate_locked = (Inr resp, st) \<and>
     wr_status resp = ''success'' \<and> \<not> wr_sop_retrieved resp \<and>
     wr_sop_content resp = None \<and> fst (last (requests st)) = ''/execute''"
proof -
  let ?d = "[(''predicted_label'', JStr ''ACCESS_ISSUE''), (''confidence'', JFloat (9 / 10)),
             (''top_predictions'',
                JList [JDict [(''label'', JStr ''ACCESS_ISSUE''),
                              (''confidence'', JFloat (9 / 10))]])]"
  let ?c = "\<lparr> agent1_result = ?d, predicted_label = JStr ''ACCESS_ISSUE'',
               confidence1 = JFloat (9 / 10) \<rparr>"
  have c: "classification_stage no_match gate_locked \<lparr> requests = [], agents_executed = [] \<rparr> =
             (Inr ?c, \<lparr> requests = [(''/predict'', agent1_payload gate_locked)],
                        agents_executed = [''agent1_classification''] \<rparr>)"
    by (simp add: classification_stage_def no_match_def healthy_def ok_response_def
        access_issue_def and_then_def post_def executed_def Let_def)
  have r: "retrieve no_match (agent2_payload gate_locked ?c) =
             Responds \<lparr> status_code = 200, text_of = [],
                        json_body = Some (JDict [(''sops'', JList [])]) \<rparr>"
    by (simp add: no_match_def healthy_def ok_response_def)
  have w: "lawful strict \<and> agent1_well_typed (agent1_result ?c)"
    by (simp add: lawful_strict agent1_well_typed_def)
  note th = zero_matches_completes [OF c r, of "[(''sops'', JList [])]" strict, simplified]
  from th w obtain resp where resp: "fst (run_workflow strict no_match gate_locked) = Inr resp"
    by auto
  obtain st where st: "snd (run_workflow strict no_match gate_locked) = st"
    by simp
  from resp st have "run_workflow strict no_match gate_locked = (Inr resp, st)"
    by (cases "run_workflow strict no_match gate_locked") simp
  with th resp st show ?thesis
    by auto
qed

text \<open>
  C7 as stated fails: a run in which Retrieval answers 200 with zero matches need not
  return the status "success".  With Agent 1 answering 200 with \<^verbatim>\<open>predicted_label: null\<close>
  the Classification stage succeeds, the four collaborators are called in turn, and the
  final \<^verbatim>\<open>WorkflowResponse(...)\<close> raises a validation error that leaves \<^verbatim>\<open>run_workflow\<close>.
\<close>

theorem zero_matches_invalid_label_counterexample:
  "fst (run_workflow strict null_label gate_locked) = Inl ValidationError \<and>
   map fst (requests (snd (run_workflow strict null_label gate_locked))) =
     [''/predict'', ''/retrieve'', ''/decide'', ''/execute'']"
  by (simp add: run_workflow_def classification_stage_def retrieval_stage_def read_sops_def
      decision_stage_def execution_stage_def build_response_def make_decision_output_def
      make_action_output_def null_label_def no_match_def healthy_def ok_response_def
      and_then_def post_def executed_def no_sop_def no_decision_def strict_def
      v_optional_def Let_def)

text \<open>
  C2 fails on the code for the Retrieval stage.  Agent 2's block catches only
  \<^verbatim>\<open>httpx.RequestError\<close> (Agents 3 and 4 also catch \<^verbatim>\<open>Exception\<close>), so an exception
  raised while its answer is processed leaves \<^verbatim>\<open>run_workflow\<close>: with Classification
  succeeded, an answer 200 whose body is not JSON, or whose first match has no score,
  makes the run raise instead of returning a result with status "success".
\<close>

theorem retrieval_exception_escapes:
  "run_workflow strict retrieval_not_json gate_locked =
     (Inl JSONDecodeError,
      \<lparr> requests = [(''/predict'', agent1_payload gate_locked),
                    (''/retrieve'', JDict [(''exception_type'', JStr ''ACCESS_ISSUE''),
                                          (''driver_note'', JStr ''gate locked''),
                                          (''num_results'', JInt 1)])],
        agents_executed = [''agent1_classification''] \<rparr>) \<and>
   fst (run_workflow strict retrieval_without_score gate_locked) = Inl TypeError"
  by (simp add: run_workflow_def classification_stage_def retrieval_stage_def read_sops_def
      retrieval_not_json_def retrieval_without_score_def healthy_def ok_response_def
      unparsable_response_def access_issue_def and_then_def post_def executed_def
      agent2_payload_def gate_locked_def Let_def)

text \<open>What does hold of C2: a Retrieval collaborator that cannot be reached or answers
  with a status other than 200 leaves the SOP slots at their defaults, and no outcome
  of the Decision and Execution calls makes the run fail.\<close>

lemma retrieval_stage_unavailable:
  assumes "retrieve co (agent2_payload data c) = Raises (RequestError m) \<or>
           (retrieve co (agent2_payload data c) = Responds r \<and> status_code r \<noteq> 200)"
  shows "retrieval_stage co data c st = (Inr no_sop, post ''/retrieve'' (agent2_payload data c) st)"
  using assms
  by (auto simp: retrieval_stage_def Let_def)

lemma downstream_failures_absorbed:
  assumes "lawful V"
    and "predict co (agent1_payload data) = Responds r1"
    and "status_code r1 = 200" and "json_body r1 = Some (JDict d1)"
    and "agent1_well_typed d1"
    and "\<forall>c. agent1_result c = d1 \<longrightarrow>
           retrieve co (agent2_payload data c) = Raises (RequestError m) \<or>
           (retrieve co (agent2_payload data c) = Responds r2 \<and> status_code r2 \<noteq> 200)"
  shows "\<exists>resp st. run_workflow V co data = (Inr resp, st) \<and>
           wr_status resp = ''success'' \<and> \<not> wr_sop_retrieved resp \<and>
           wr_sop_content resp = None \<and> wr_sop_score resp = None \<and> wr_sop_id resp = None \<and>
           Some (JStr (wr_predicted_label resp)) = map_of d1 ''predicted_label''"
proof -
  let ?st0 = "\<lparr> requests = [], agents_executed = [] \<rparr>"
  from classification_stage_succeeds [OF assms(2-5), of ?st0]
  obtain pl cf where c: "classification_stage co data ?st0 =
      (Inr \<lparr> agent1_result = d1, predicted_label = pl, confidence1 = cf \<rparr>,
       executed ''agent1_classification'' (post ''/predict'' (agent1_payload data) ?st0))"
    and pl: "map_of d1 ''predicted_label'' = Some pl"
    and cf: "map_of d1 ''confidence'' = Some cf"
    by blast
  let ?c = "\<lparr> agent1_result = d1, predicted_label = pl, confidence1 = cf \<rparr>"
  let ?st1 = "executed ''agent1_classification'' (post ''/predict'' (agent1_payload data) ?st0)"
  have "retrieve co (agent2_payload data ?c) = Raises (RequestError m) \<or>
        (retrieve co (agent2_payload data ?c) = Responds r2 \<and> status_code r2 \<noteq> 200)"
    using assms(6) by simp
  from retrieval_stage_unavailable [OF this, of ?st1]
  have r: "retrieval_stage co data ?c ?st1 =
             (Inr no_sop, post ''/retrieve'' (agent2_payload data ?c) ?st1)" .
  obtain dec st3 where d: "decision_stage V co data ?c no_sop
      (post ''/retrieve'' (agent2_payload data ?c) ?st1) = (dec, st3)"
    by (cases "decision_stage V co data ?c no_sop
      (post ''/retrieve'' (agent2_payload data ?c) ?st1)")
  obtain act st4 where e: "execution_stage V co data ?c no_sop dec st3 = (act, st4)"
    by (cases "execution_stage V co data ?c no_sop dec st3")
  from build_response_succeeds [OF assms(1,5) pl cf, of dec act st4]
  obtain resp where b: "build_response V ?c no_sop dec act st4 = Inr resp"
    and props: "wr_status resp = ''success''" "\<not> wr_sop_retrieved resp"
      "wr_sop_content resp = None" "wr_sop_score resp = None" "wr_sop_id resp = None"
      "Some (JStr (wr_predicted_label resp)) = map_of d1 ''predicted_label''"
    by blast
  have "run_workflow V co data = (Inr resp, st4)"
    by (simp add: run_workflow_def c r d e b)
  with props show ?thesis
    by blast
qed

section \<open>Properties of the classifier client\<close>

lemma print_top_predictions_ok:
  "list_all printable_prediction preds \<Longrightarrow> print_top_predictions preds = Inr ()"
proof (induction preds)
  case Nil
  then show ?case by simp
next
  case (Cons pred preds)
  then show ?case
    by (cases pred) (auto simp: and_then_def split: option.splits)
qed

lemma classify_payload_gate_locked:
  "classify_payload gate_locked_state =
     Inr (JDict [(''driver_note'', JStr ''gate locked''), (''gps_deviation_km'', JFloat (2 / 10)),
                 (''weather_condition'', JStr ''Clear''), (''attempts'', JInt 2),
                 (''hub_delay_minutes'', JInt 10), (''package_scan_result'', JStr ''OK''),
                 (''time_of_day'', JStr ''Afternoon'')])"
  by (simp add: classify_payload_def state_item_def gate_locked_state_def and_then_def)

text \<open>The payload can be built exactly when the state holds the seven delivery
  fields.\<close>

lemma classify_payload_defined:
  "(\<exists>payload. classify_payload state = Inr payload) =
     (\<forall>k \<in> set delivery_fields. state k \<noteq> None)"
  by (auto simp: classify_payload_def state_item_def and_then_def delivery_fields_def
      split: option.splits)

lemma classify_without_payload:
  "classify_payload state = Inl e \<Longrightarrow> classify post_predict state = Inl e"
  by (simp add: classify_def and_then_def)

text \<open>
  C6 (as amended).  The Classifier Client fails, before any call, when the state lacks
  one of the seven delivery fields.  For a state holding them it fails when the call
  raises (a timeout or an unreachable collaborator), when the answer has a status other
  than 200, and when the answer lacks \<^verbatim>\<open>predicted_label\<close> or \<^verbatim>\<open>confidence\<close>.  A missing
  \<^verbatim>\<open>top_predictions\<close> is read as the empty list and the confidence is not range-checked:
  an answer 200 with a label, a confidence that \<^verbatim>\<open>:.4f\<close> can format (a float, a boolean,
  or an integer that fits a float) and no top predictions, or a list whose first three
  entries are dicts with a label and such a confidence, makes the stage succeed and
  write \<^verbatim>\<open>predicted_label\<close> and \<^verbatim>\<open>confidence\<close> into the record.
\<close>

theorem classify_outcomes:
  "((\<exists>k \<in> set delivery_fields. state k = None) \<longrightarrow> isl (classify post_predict state)) \<and>
   ((\<forall>k \<in> set delivery_fields. state k \<noteq> None) \<longrightarrow>
      (\<exists>p. classify_payload state = Inr p)) \<and>
   (classify_payload state = Inr payload \<longrightarrow>
      (post_predict payload = Raises e \<longrightarrow> classify post_predict state = Inl e) \<and>
      (post_predict payload = Responds r \<and> status_code r \<noteq> 200 \<longrightarrow>
         isl (classify post_predict state)) \<and>
      (post_predict payload = Responds r \<and> status_code r = 200 \<and>
       json_body r = Some (JDict d) \<and>
       (map_of d ''predicted_label'' = None \<or> map_of d ''confidence'' = None) \<longrightarrow>
         isl (classify post_predict state)) \<and>
      (post_predict payload = Responds r \<and> status_code r = 200 \<and>
       json_body r = Some (JDict d) \<and>
       map_of d ''predicted_label'' = Some pl \<and> map_of d ''confidence'' = Some cf \<and>
       format_float cf = Inr () \<and>
       (map_of d ''top_predictions'' = None \<or>
        (\<exists>preds. map_of d ''top_predictions'' = Some (JList preds) \<and>
                 list_all printable_prediction (take 3 preds))) \<longrightarrow>
         classify post_predict state =
           Inr (state(''predicted_label'' \<mapsto> pl, ''confidence'' \<mapsto> cf))))"
proof (intro conjI impI)
  assume "\<exists>k \<in> set delivery_fields. state k = None"
  with classify_payload_defined [of state]
  have "\<not> (\<exists>payload. classify_payload state = Inr payload)"
    by blast
  then obtain x where "classify_payload state = Inl x"
    by (cases "classify_payload state") auto
  from classify_without_payload [OF this] show "isl (classify post_predict state)"
    by simp
next
  assume "\<forall>k \<in> set delivery_fields. state k \<noteq> None"
  with classify_payload_defined [of state] show "\<exists>p. classify_payload state = Inr p"
    by blast
next
  assume p: "classify_payload state = Inr payload"
  assume "post_predict payload = Raises e"
  with p show "classify post_predict state = Inl e"
    by (simp add: classify_def and_then_def)
next
  assume p: "classify_payload state = Inr payload"
  assume "post_predict payload = Responds r \<and> status_code r \<noteq> 200"
  with p show "isl (classify post_predict state)"
    by (simp add: classify_def and_then_def)
next
  assume p: "classify_payload state = Inr payload"
  assume "post_predict payload = Responds r \<and> status_code r = 200 \<and>
          json_body r = Some (JDict d) \<and>
          (map_of d ''predicted_label'' = None \<or> map_of d ''confidence'' = None)"
  with p show "isl (classify post_predict state)"
    by (auto simp: classify_def and_then_def split: option.splits)
next
  assume p: "classify_payload state = Inr payload"
  assume a: "post_predict payload = Responds r \<and> status_code r = 200 \<and>
          json_body r = Some (JDict d) \<and>
          map_of d ''predicted_label'' = Some pl \<and> map_of d ''confidence'' = Some cf \<and>
          format_float cf = Inr () \<and>
          (map_of d ''top_predictions'' = None \<or>
           (\<exists>preds. map_of d ''top_predictions'' = Some (JList preds) \<and>
                    list_all printable_prediction (take 3 preds)))"
  then consider "map_of d ''top_predictions'' = None"
    | preds where "map_of d ''top_predictions'' = Some (JList preds)"
        "list_all printable_prediction (take 3 preds)"
    by auto
  then show "classify post_predict state =
               Inr (state(''predicted_label'' \<mapsto> pl, ''confidence'' \<mapsto> cf))"
  proof cases
    case 1
    with a p show ?thesis
      by (simp add: classify_def and_then_def)
  next
    case 2
    from print_top_predictions_ok [OF 2(2)] 2(1) a p show ?thesis
      by (simp add: classify_def and_then_def)
  qed
qed

text \<open>
  C6 as stated fails: an answer without \<^verbatim>\<open>top_predictions\<close>, and an answer whose
  confidence is 1.5, are both accepted by \<^verbatim>\<open>classify\<close>, and the orchestrator returns
  the out-of-range confidence in its result.
\<close>

theorem classify_accepts_counterexample:
  "classify (\<lambda>p. ok_response without_top_predictions) gate_locked_state =
     Inr (gate_locked_state(''predicted_label'' \<mapsto> JStr ''ACCESS_ISSUE'',
                            ''confidence'' \<mapsto> JFloat (9 / 10))) \<and>
   classify (\<lambda>p. ok_response confidence_out_of_range) gate_locked_state =
     Inr (gate_locked_state(''predicted_label'' \<mapsto> JStr ''ACCESS_ISSUE'',
                            ''confidence'' \<mapsto> JFloat (3 / 2))) \<and>
   map_sum id wr_confidence
     (fst (run_workflow strict (healthy\<lparr> predict := (\<lambda>p. ok_response confidence_out_of_range) \<rparr>)
             gate_locked)) = Inr (3 / 2)"
proof (intro conjI)
  show "classify (\<lambda>p. ok_response without_top_predictions) gate_locked_state =
     Inr (gate_locked_state(''predicted_label'' \<mapsto> JStr ''ACCESS_ISSUE'',
                            ''confidence'' \<mapsto> JFloat (9 / 10)))"
    by (simp add: classify_def classify_payload_gate_locked and_then_def ok_response_def
        without_top_predictions_def)
  show "classify (\<lambda>p. ok_response confidence_out_of_range) gate_locked_state =
     Inr (gate_locked_state(''predicted_label'' \<mapsto> JStr ''ACCESS_ISSUE'',
                            ''confidence'' \<mapsto> JFloat (3 / 2)))"
    by (simp add: classify_def classify_payload_gate_locked and_then_def ok_response_def
        confidence_out_of_range_def)
  show "map_sum id wr_confidence
     (fst (run_workflow strict (healthy\<lparr> predict := (\<lambda>p. ok_response confidence_out_of_range) \<rparr>)
             gate_locked)) = Inr (3 / 2)"
    by (simp add: run_workflow_def classification_stage_def retrieval_stage_def read_sops_def
        decision_stage_def execution_stage_def build_response_def make_decision_output_def
        make_action_output_def top_predictions_of_def v_optional_def strict_def no_sop_def
        healthy_def ok_response_def confidence_out_of_range_def and_then_def post_def
        executed_def Let_def)
qed

theorem classify_outcomes_witness:
  "isl (classify (\<lambda>p. ok_response without_top_predictions)
          (gate_locked_state(''attempts'' := None))) \<and>
   isl (classify (\<lambda>p. ok_response (JDict [(''confidence'', JFloat (9 / 10))])) gate_locked_state) \<and>
   classify (\<lambda>p. ok_response without_top_predictions) gate_locked_state =
     Inr (gate_locked_state(''predicted_label'' \<mapsto> JStr ''ACCESS_ISSUE'',
                            ''confidence'' \<mapsto> JFloat (9 / 10)))"
proof (intro conjI)
  show "isl (classify (\<lambda>p. ok_response without_top_predictions)
          (gate_locked_state(''attempts'' := None)))"
    using classify_outcomes [where state = "gate_locked_state(''attempts'' := None)"
          and post_predict = "\<lambda>p. ok_response without_top_predictions"]
    by (simp add: delivery_fields_def)
  show "isl (classify (\<lambda>p. ok_response (JDict [(''confidence'', JFloat (9 / 10))]))
               gate_locked_state)"
    using classify_outcomes [where state = gate_locked_state
          and payload = "projr (classify_payload gate_locked_state)"
          and post_predict = "\<lambda>p. ok_response (JDict [(''confidence'', JFloat (9 / 10))])"
          and d = "[(''confidence'', JFloat (9 / 10))]"
          and r = "\<lparr> status_code = 200, text_of = [],
                     json_body = Some (JDict [(''confidence'', JFloat (9 / 10))]) \<rparr>"]
    by (simp add: ok_response_def classify_payload_gate_locked)
  show "classify (\<lambda>p. ok_response without_top_predictions) gate_locked_state =
     Inr (gate_locked_state(''predicted_label'' \<mapsto> JStr ''ACCESS_ISSUE'',
                            ''confidence'' \<mapsto> JFloat (9 / 10)))"
    using classify_outcomes [where state = gate_locked_state
          and payload = "projr (classify_payload gate_locked_state)"
          and post_predict = "\<lambda>p. ok_response without_top_predictions"
          and d = "[(''predicted_label'', JStr ''ACCESS_ISSUE''),
                    (''confidence'', JFloat (9 / 10))]"
          and pl = "JStr ''ACCESS_ISSUE''" and cf = "JFloat (9 / 10)"
          and r = "\<lparr> status_code = 200, text_of = [],
                     json_body = Some without_top_predictions \<rparr>"]
    by (simp add: ok_response_def without_top_predictions_def classify_payload_gate_locked)
qed

section \<open>Properties of the decider client\<close>











section \<open>Properties of the executor\<close>

lemma typed_escalation:
  "decision_fields_typed d \<Longrightarrow>
     dict_get d ''requires_escalation'' (JBool False) = JBool (escalation_of d)"
  by (cases "map_of d ''requires_escalation''"; cases "the (map_of d ''requires_escalation'')")
     (simp_all add: decision_fields_typed_def typed_or_missing_def dict_get_def escalation_of_def
        bool_or_def)

lemma typed_message:
  "decision_fields_typed d \<Longrightarrow>
     dict_get d ''customer_message'' (JStr []) = JStr (message_of d)"
  by (cases "map_of d ''customer_message''"; cases "the (map_of d ''customer_message'')")
     (simp_all add: decision_fields_typed_def typed_or_missing_def dict_get_def message_of_def
        str_or_def)

lemma typed_action:
  "decision_fields_typed d \<Longrightarrow>
     dict_get d ''recommended_action'' (JStr x) = JStr (str_or d ''recommended_action'' x)"
  by (cases "map_of d ''recommended_action''"; cases "the (map_of d ''recommended_action'')")
     (simp_all add: decision_fields_typed_def typed_or_missing_def dict_get_def str_or_def)

text \<open>Logging never raises for a typed request; it reports success when the row was
  appended and also in simulation mode, where the sheet is left as it was.\<close>

lemma log_to_sheets_typed:
  assumes "request_typed request"
  shows "\<exists>updated sh'. log_to_sheets lib row_time sh request = (Inr updated, sh') \<and>
           updated = (sheet_rows sh' \<noteq> sheet_rows sh \<or>
                      \<not> (sheets_initialized sh \<and> worksheet sh \<noteq> None)) \<and>
           (sheet_rows sh' \<noteq> sheet_rows sh \<longrightarrow>
              (\<exists>row. build_row lib row_time request = Inr row \<and>
                     sheet_rows sh' = sheet_rows sh @ [row])) \<and>
           (\<not> (sheets_initialized sh \<and> worksheet sh \<noteq> None) \<longrightarrow> sh' = sh)"
proof (cases "sheets_initialized sh \<and> worksheet sh \<noteq> None")
  case True
  then obtain ws where ws: "sheets_initialized sh" "worksheet sh = Some ws"
    by auto
  show ?thesis
  proof (cases "build_row lib row_time request")
    case (Inl e)
    with ws show ?thesis
      by (auto simp: log_to_sheets_def)
  next
    case (Inr row)
    with ws show ?thesis
      by (cases "append_error ws") (auto simp: log_to_sheets_def sheet_rows_def)
  qed
next
  case False
  from typed_action [OF assms [unfolded request_typed_def], of "''N/A''"]
  have "\<exists>shown. py_slice_to 50
          (dict_get (decision_or_empty request) ''recommended_action'' (JStr ''N/A'')) = Inr shown"
    by simp
  with False show ?thesis
    by (cases "sheets_initialized sh"; cases "worksheet sh") (auto simp: log_to_sheets_def)
qed

lemma simulate_email_typed:
  assumes "request_typed request"
  shows "simulate_email request (JBool (escalation_of (decision_or_empty request))) =
           Inr (message_of (decision_or_empty request) \<noteq> [] \<or>
                  escalation_of (decision_or_empty request),
                if escalation_of (decision_or_empty request)
                then [EscalationEmail (ar_predicted_label request)]
                else if message_of (decision_or_empty request) \<noteq> []
                then [CustomerNotification (JStr (message_of (decision_or_empty request)))]
                else [])"
  using typed_message [OF assms [unfolded request_typed_def]]
  by (simp add: simulate_email_def and_then_def)

lemma execute_actions_typed:
  assumes "lawful V" and "request_typed request"
  shows "\<exists>updated sh'.
           log_to_sheets lib row_time sh request = (Inr updated, sh') \<and>
           execute_actions V lib now row_time sh request =
             (Inr \<lparr> sheet_updated = updated,
                    email_simulated = (message_of (decision_or_empty request) \<noteq> [] \<or>
                                       escalation_of (decision_or_empty request)),
                    escalated = escalation_of (decision_or_empty request),
                    timestamp = now @ ''Z'',
                    resp_status = ''success'', resp_agent = ''agent4_action'' \<rparr>,
              sh',
              if escalation_of (decision_or_empty request)
              then [EscalationEmail (ar_predicted_label request)]
              else if message_of (decision_or_empty request) \<noteq> []
              then [CustomerNotification (JStr (message_of (decision_or_empty request)))]
              else [])"
proof -
  from log_to_sheets_typed [OF assms(2), of lib row_time sh]
  obtain updated sh' where l: "log_to_sheets lib row_time sh request = (Inr updated, sh')"
    by blast
  have v: "v_bool V (JBool (escalation_of (decision_or_empty request))) =
             Some (escalation_of (decision_or_empty request))"
    using assms(1) by (simp add: lawful_def)
  show ?thesis
    using l v simulate_email_typed [OF assms(2)]
      typed_escalation [OF assms(2) [unfolded request_typed_def]]
    by (simp add: execute_actions_def)
qed

text \<open>Whatever the request, a response that is returned reports the sheet and the
  e-mail as the two actions left them.\<close>

lemma log_to_sheets_result:
  assumes "log_to_sheets lib row_time sh request = (Inr updated, sh')"
  shows "updated = (sheet_rows sh' \<noteq> sheet_rows sh \<or>
                    \<not> (sheets_initialized sh \<and> worksheet sh \<noteq> None)) \<and>
         (sheet_rows sh' \<noteq> sheet_rows sh \<longrightarrow>
            (\<exists>row. build_row lib row_time request = Inr row \<and>
                   sheet_rows sh' = sheet_rows sh @ [row])) \<and>
         (\<not> (sheets_initialized sh \<and> worksheet sh \<noteq> None) \<longrightarrow> sheet_rows sh' = sheet_rows sh)"
proof (cases "sheets_initialized sh \<and> worksheet sh \<noteq> None")
  case True
  then obtain ws where ws: "sheets_initialized sh" "worksheet sh = Some ws"
    by auto
  show ?thesis
  proof (cases "build_row lib row_time request")
    case (Inl e)
    with ws assms show ?thesis
      by (auto simp: log_to_sheets_def)
  next
    case (Inr row)
    with ws assms show ?thesis
      by (cases "append_error ws") (auto simp: log_to_sheets_def sheet_rows_def)
  qed
next
  case False
  with assms show ?thesis
    by (cases "sheets_initialized sh"; cases "worksheet sh")
       (auto simp: log_to_sheets_def split: sum.splits)
qed

lemma execute_actions_response:
  assumes "execute_actions V lib now row_time sh request = (Inr resp, sh', emails)"
  shows "log_to_sheets lib row_time sh request = (Inr (sheet_updated resp), sh') \<and>
         resp_status resp = ''success'' \<and>
         email_simulated resp =
           (truthy (dict_get (decision_or_empty request) ''customer_message'' (JStr [])) \<or>
            truthy (dict_get (decision_or_empty request) ''requires_escalation'' (JBool False))) \<and>
         v_bool V (dict_get (decision_or_empty request) ''requires_escalation'' (JBool False)) =
           Some (escalated resp) \<and>
         emails =
           (if truthy (dict_get (decision_or_empty request) ''requires_escalation'' (JBool False))
            then [EscalationEmail (ar_predicted_label request)]
            else if truthy (dict_get (decision_or_empty request) ''customer_message'' (JStr []))
            then [CustomerNotification
                    (dict_get (decision_or_empty request) ''customer_message'' (JStr []))]
            else [])"
proof -
  obtain r sh1 where l: "log_to_sheets lib row_time sh request = (r, sh1)"
    by (cases "log_to_sheets lib row_time sh request")
  with assms obtain updated where u: "r = Inr updated"
    by (cases r) (simp_all add: execute_actions_def)
  let ?re = "dict_get (decision_or_empty request) ''requires_escalation'' (JBool False)"
  obtain m where m: "simulate_email request ?re = m"
    by simp
  with assms l u obtain simulated mails where sm: "m = Inr (simulated, mails)"
    by (cases m) (auto simp: execute_actions_def)
  from assms l u m sm obtain esc where esc: "v_bool V ?re = Some esc"
    by (cases "v_bool V ?re") (auto simp: execute_actions_def)
  from assms l u m sm esc
  have resp: "resp = \<lparr> sheet_updated = updated, email_simulated = simulated, escalated = esc,
                        timestamp = now @ ''Z'', resp_status = ''success'',
                        resp_agent = ''agent4_action'' \<rparr>"
    and sh': "sh' = sh1" and mails: "emails = mails"
    by (auto simp: execute_actions_def)
  from m sm have "simulated =
      (truthy (dict_get (decision_or_empty request) ''customer_message'' (JStr [])) \<or> truthy ?re)"
    and "mails = (if truthy ?re then [EscalationEmail (ar_predicted_label request)]
            else if truthy (dict_get (decision_or_empty request) ''customer_message'' (JStr []))
            then [CustomerNotification
                    (dict_get (decision_or_empty request) ''customer_message'' (JStr []))]
            else [])"
    by (auto simp: simulate_email_def and_then_def Let_def split: if_splits sum.splits)
  with resp sh' mails l u esc show ?thesis
    by simp
qed

text \<open>With an initialised backend the flag tells whether the row was built and
  appended, and the sheet changes by that row only; in simulation mode the flag is
  true and nothing changes.\<close>

lemma log_to_sheets_initialised:
  assumes "log_to_sheets lib row_time sh request = (Inr updated, sh')"
    and "sheets_initialized sh" and "worksheet sh = Some ws"
  shows "updated = ((\<exists>row. build_row lib row_time request = Inr row) \<and>
                    append_error ws = None) \<and>
         (\<forall>row. build_row lib row_time request = Inr row \<and> append_error ws = None \<longrightarrow>
            sh' = sh\<lparr> worksheet := Some (ws\<lparr> rows := rows ws @ [row] \<rparr>) \<rparr>) \<and>
         (\<not> updated \<longrightarrow> sh' = sh)"
proof (cases "build_row lib row_time request")
  case (Inl e)
  with assms show ?thesis
    by (auto simp: log_to_sheets_def)
next
  case (Inr row)
  with assms show ?thesis
    by (cases "append_error ws") (auto simp: log_to_sheets_def)
qed

lemma log_to_sheets_simulated:
  assumes "log_to_sheets lib row_time sh request = (Inr updated, sh')"
    and "\<not> (sheets_initialized sh \<and> worksheet sh \<noteq> None)"
  shows "updated \<and> sh' = sh"
  using assms
  by (cases "sheets_initialized sh"; cases "worksheet sh")
     (auto simp: log_to_sheets_def split: sum.splits)

text \<open>
  C9 (as amended).  The Execution stage is best-effort.  Whenever \<^verbatim>\<open>/execute\<close> answers,
  the status is "success".  With an initialised backend, \<^verbatim>\<open>sheet_updated\<close> is true exactly
  when the row was built and \<^verbatim>\<open>append_row\<close> did not raise, and then the sheet has that
  row appended; it is false exactly when building or appending the row raises, and then
  the sheet is unchanged.  In simulation mode (Sheets not initialised, or no worksheet)
  \<^verbatim>\<open>sheet_updated\<close> is true although nothing is written.  For a request whose decision
  fields have their declared types, \<^verbatim>\<open>/execute\<close> answers whatever the state of the
  logging backend.
\<close>

theorem sheet_logging_best_effort:
  "(\<forall>resp sh' emails.
      execute_actions V lib now row_time sh request = (Inr resp, sh', emails) \<longrightarrow>
        resp_status resp = ''success'' \<and>
        (sheets_initialized sh \<and> worksheet sh = Some ws \<longrightarrow>
           sheet_updated resp = ((\<exists>row. build_row lib row_time request = Inr row) \<and>
                                 append_error ws = None) \<and>
           (\<forall>row. build_row lib row_time request = Inr row \<and> append_error ws = None \<longrightarrow>
              sh' = sh\<lparr> worksheet := Some (ws\<lparr> rows := rows ws @ [row] \<rparr>) \<rparr>) \<and>
           (\<not> sheet_updated resp \<longrightarrow> sh' = sh)) \<and>
        (\<not> (sheets_initialized sh \<and> worksheet sh \<noteq> None) \<longrightarrow>
           sheet_updated resp \<and> sh' = sh) \<and>
        sheet_updated resp = (sheet_rows sh' \<noteq> sheet_rows sh \<or>
                              \<not> (sheets_initialized sh \<and> worksheet sh \<noteq> None))) \<and>
   (lawful V \<and> request_typed request \<longrightarrow>
      (\<exists>resp sh' emails.
         execute_actions V lib now row_time sh request = (Inr resp, sh', emails)))"
proof -
  have answered:
    "resp_status resp = ''success'' \<and>
     (sheets_initialized sh \<and> worksheet sh = Some ws \<longrightarrow>
        sheet_updated resp = ((\<exists>row. build_row lib row_time request = Inr row) \<and>
                              append_error ws = None) \<and>
        (\<forall>row. build_row lib row_time request = Inr row \<and> append_error ws = None \<longrightarrow>
           sh' = sh\<lparr> worksheet := Some (ws\<lparr> rows := rows ws @ [row] \<rparr>) \<rparr>) \<and>
        (\<not> sheet_updated resp \<longrightarrow> sh' = sh)) \<and>
     (\<not> (sheets_initialized sh \<and> worksheet sh \<noteq> None) \<longrightarrow>
        sheet_updated resp \<and> sh' = sh) \<and>
     sheet_updated resp = (sheet_rows sh' \<noteq> sheet_rows sh \<or>
                           \<not> (sheets_initialized sh \<and> worksheet sh \<noteq> None))"
    if e: "execute_actions V lib now row_time sh request = (Inr resp, sh', emails)"
    for resp sh' emails
  proof -
    from execute_actions_response [OF e]
    have l: "log_to_sheets lib row_time sh request = (Inr (sheet_updated resp), sh')"
      and s: "resp_status resp = ''success''"
      by simp_all
    from log_to_sheets_result [OF l]
    have r: "sheet_updated resp = (sheet_rows sh' \<noteq> sheet_rows sh \<or>
                                  \<not> (sheets_initialized sh \<and> worksheet sh \<noteq> None))"
      by simp
    have n: "\<not> (sheets_initialized sh \<and> worksheet sh \<noteq> None) \<longrightarrow>
               sheet_updated resp \<and> sh' = sh"
    proof
      assume "\<not> (sheets_initialized sh \<and> worksheet sh \<noteq> None)"
      from log_to_sheets_simulated [OF l this] show "sheet_updated resp \<and> sh' = sh" .
    qed
    have i: "sheets_initialized sh \<and> worksheet sh = Some ws \<longrightarrow>
        sheet_updated resp = ((\<exists>row. build_row lib row_time request = Inr row) \<and>
                              append_error ws = None) \<and>
        (\<forall>row. build_row lib row_time request = Inr row \<and> append_error ws = None \<longrightarrow>
           sh' = sh\<lparr> worksheet := Some (ws\<lparr> rows := rows ws @ [row] \<rparr>) \<rparr>) \<and>
        (\<not> sheet_updated resp \<longrightarrow> sh' = sh)"
    proof
      assume a: "sheets_initialized sh \<and> worksheet sh = Some ws"
      from log_to_sheets_initialised [OF l a [THEN conjunct1] a [THEN conjunct2]]
      show "sheet_updated resp = ((\<exists>row. build_row lib row_time request = Inr row) \<and>
                              append_error ws = None) \<and>
        (\<forall>row. build_row lib row_time request = Inr row \<and> append_error ws = None \<longrightarrow>
           sh' = sh\<lparr> worksheet := Some (ws\<lparr> rows := rows ws @ [row] \<rparr>) \<rparr>) \<and>
        (\<not> sheet_updated resp \<longrightarrow> sh' = sh)" .
    qed
    show ?thesis
      by (rule conjI [OF s conjI [OF i conjI [OF n r]]])
  qed
  have typed: "\<exists>resp sh' emails.
         execute_actions V lib now row_time sh request = (Inr resp, sh', emails)"
    if "lawful V \<and> request_typed request"
  proof -
    from that have "lawful V" "request_typed request"
      by simp_all
    from execute_actions_typed [OF this, of lib row_time sh now] show ?thesis
      by blast
  qed
  show ?thesis
    apply (rule conjI)
     apply (intro allI impI)
     apply (erule answered)
    apply (rule impI)
    apply (erule typed)
    done
qed

text \<open>
  C9 as stated fails: in simulation mode, with no sheet at all, the response says
  \<^verbatim>\<open>sheet_updated = True\<close> although no row was written.
\<close>

theorem simulated_write_counterexample:
  "execute_actions strict toy_python ''2025-01-01T00:00:00'' ''2025-01-01 00:00:00 UTC''
     no_sheets plain_request =
     (Inr \<lparr> sheet_updated = True, email_simulated = False, escalated = False,
            timestamp = ''2025-01-01T00:00:00Z'', resp_status = ''success'',
            resp_agent = ''agent4_action'' \<rparr>,
      no_sheets, []) \<and>
   sheet_rows no_sheets = []"
  by (simp add: execute_actions_def log_to_sheets_def simulate_email_def decision_or_empty_def
      dict_get_def no_sheets_def plain_request_def strict_def sheet_rows_def)

theorem sheet_logging_best_effort_witness:
  "(\<exists>resp sh' emails.
     execute_actions strict toy_python ''2025-01-01T00:00:00'' ''2025-01-01 00:00:00 UTC''
       sheets_up plain_request = (Inr resp, sh', emails) \<and>
     resp_status resp = ''success'' \<and> sheet_updated resp \<and> length (sheet_rows sh') = 1) \<and>
   (\<exists>resp sh' emails.
     execute_actions strict toy_python ''2025-01-01T00:00:00'' ''2025-01-01 00:00:00 UTC''
       sheets_down escalating_request = (Inr resp, sh', emails) \<and>
     resp_status resp = ''success'' \<and> \<not> sheet_updated resp \<and> sheet_rows sh' = [])"
proof (rule conjI)
  let ?ws = "\<lparr> rows = [], append_error = None \<rparr>"
  have t: "lawful strict \<and> request_typed plain_request"
    by (simp add: lawful_strict request_typed_def decision_or_empty_def
        plain_request_def decision_fields_typed_def typed_or_missing_def)
  have i: "sheets_initialized sheets_up \<and> worksheet sheets_up = Some ?ws"
    by (simp add: sheets_up_def)
  obtain row where row: "build_row toy_python ''2025-01-01 00:00:00 UTC'' plain_request = Inr row"
    by (simp add: build_row_def plain_request_def decision_or_empty_def dict_get_def
        and_then_def Let_def)
  note th = sheet_logging_best_effort [where V = strict and lib = toy_python
      and now = "''2025-01-01T00:00:00''" and row_time = "''2025-01-01 00:00:00 UTC''"
      and sh = sheets_up and request = plain_request and ws = ?ws]
  from th [THEN conjunct2, rule_format, OF t] obtain resp sh' emails where
    e: "execute_actions strict toy_python ''2025-01-01T00:00:00'' ''2025-01-01 00:00:00 UTC''
          sheets_up plain_request = (Inr resp, sh', emails)"
    by (elim exE)
  note a = th [THEN conjunct1, rule_format, OF e]
  note s = a [THEN conjunct1]
  note x = a [THEN conjunct2, THEN conjunct1, rule_format, OF i]
  from x [THEN conjunct1] row have u: "sheet_updated resp"
    by simp
  have "build_row toy_python ''2025-01-01 00:00:00 UTC'' plain_request = Inr row \<and>
        append_error ?ws = None"
    using row by simp
  from x [THEN conjunct2, THEN conjunct1, rule_format, OF this]
  have n: "length (sheet_rows sh') = 1"
    by (simp add: sheet_rows_def)
  show "\<exists>resp sh' emails.
     execute_actions strict toy_python ''2025-01-01T00:00:00'' ''2025-01-01 00:00:00 UTC''
       sheets_up plain_request = (Inr resp, sh', emails) \<and>
     resp_status resp = ''success'' \<and> sheet_updated resp \<and> length (sheet_rows sh') = 1"
    by (intro exI conjI) (rule e s u n)+
next
  let ?ws = "\<lparr> rows = [], append_error = Some (OtherException ''APIError'') \<rparr>"
  have t: "lawful strict \<and> request_typed escalating_request"
    by (simp add: lawful_strict request_typed_def decision_or_empty_def escalating_request_def
        plain_request_def decision_fields_typed_def typed_or_missing_def)
  have i: "sheets_initialized sheets_down \<and> worksheet sheets_down = Some ?ws"
    by (simp add: sheets_down_def)
  note th = sheet_logging_best_effort [where V = strict and lib = toy_python
      and now = "''2025-01-01T00:00:00''" and row_time = "''2025-01-01 00:00:00 UTC''"
      and sh = sheets_down and request = escalating_request and ws = ?ws]
  from th [THEN conjunct2, rule_format, OF t] obtain resp sh' emails where
    e: "execute_actions strict toy_python ''2025-01-01T00:00:00'' ''2025-01-01 00:00:00 UTC''
          sheets_down escalating_request = (Inr resp, sh', emails)"
    by (elim exE)
  note a = th [THEN conjunct1, rule_format, OF e]
  note s = a [THEN conjunct1]
  note x = a [THEN conjunct2, THEN conjunct1, rule_format, OF i]
  from x [THEN conjunct1] have u: "\<not> sheet_updated resp"
    by simp
  from x [THEN conjunct2, THEN conjunct2, rule_format, OF u]
  have n: "sheet_rows sh' = []"
    by (simp add: sheet_rows_def sheets_down_def)
  show "\<exists>resp sh' emails.
     execute_actions strict toy_python ''2025-01-01T00:00:00'' ''2025-01-01 00:00:00 UTC''
       sheets_down escalating_request = (Inr resp, sh', emails) \<and>
     resp_status resp = ''success'' \<and> \<not> sheet_updated resp \<and> sheet_rows sh' = []"
    by (intro exI conjI) (rule e s u n)+
qed





end
